theory Spec2Isabelle
  imports Complex_Main "HOL-Library.Sublist"
begin

section \<open>Python values used by the sales department\<close>

text \<open>
  Python floats are idealised as reals: every constant of the scoring code is a small
  integer, and the metric updates are stated over exact arithmetic. Strings are ASCII
  character lists; \<open>lower\<close> is \<open>str.lower\<close> on them, \<open>contains\<close> is the
  substring test \<open>sub in text\<close>.
\<close>

definition lower_char :: "char \<Rightarrow> char" where
  "lower_char c =
     (let n = (of_char c :: nat) in if 65 \<le> n \<and> n \<le> 90 then char_of (n + 32) else c)"

definition lower :: "string \<Rightarrow> string" where
  "lower s = map lower_char s"

fun contains :: "string \<Rightarrow> string \<Rightarrow> bool" where
  "contains sub [] = (sub = [])"
| "contains sub (c # cs) = (prefix sub (c # cs) \<or> contains sub cs)"

section \<open>Lead scoring\<close>

text \<open>The dictionary \<open>lead_data\<close>: a key that is absent is \<open>None\<close>, and
  \<open>lead_data.get(key, "")\<close> reads it with the default.\<close>

record lead_data =
  ld_title :: "string option"
  ld_company_size :: "string option"
  ld_industry :: "string option"

definition get_str :: "string option \<Rightarrow> string" where
  "get_str v = (case v of None \<Rightarrow> [] | Some s \<Rightarrow> s)"

text \<open>\<open>self.lead_scoring_criteria\<close>, the dictionary of sizes in its insertion order.\<close>

definition title_keywords :: "string list" where
  "title_keywords = [''ceo'', ''cto'', ''vp'', ''director'', ''manager'', ''head'']"

definition company_size_bonus :: "(string \<times> real) list" where
  "company_size_bonus = [(''startup'', 5), (''enterprise'', 10), (''mid-market'', 8)]"

definition industry_match :: "string list" where
  "industry_match = [''saas'', ''technology'', ''software'', ''fintech'']"

text \<open>The two loop shapes of \<open>_calculate_lead_score\<close>: the first keyword found in the
  text adds the bonus and leaves the loop.\<close>

fun keyword_loop :: "string list \<Rightarrow> string \<Rightarrow> real \<Rightarrow> real \<Rightarrow> real" where
  "keyword_loop [] text bonus score = score"
| "keyword_loop (k # ks) text bonus score =
     (if contains k text then score + bonus else keyword_loop ks text bonus score)"

fun size_loop :: "(string \<times> real) list \<Rightarrow> string \<Rightarrow> real \<Rightarrow> real" where
  "size_loop [] text score = score"
| "size_loop ((tok, bonus) # items) text score =
     (if contains tok text then score + bonus else size_loop items text score)"

definition calculate_lead_score :: "lead_data \<Rightarrow> real" where
  "calculate_lead_score d =
     (let score = 5;
          title = lower (get_str (ld_title d));
          score = keyword_loop title_keywords title 2 score;
          company_size = lower (get_str (ld_company_size d));
          score = size_loop company_size_bonus company_size score;
          industry = lower (get_str (ld_industry d));
          score = keyword_loop industry_match industry 3 score
      in min score 10)"

text \<open>The reference computation, following the words of the specification: the size
  tokens are tried in the order startup, mid-market, enterprise.\<close>

definition spec_size_bonus :: "string \<Rightarrow> real" where
  "spec_size_bonus company_size =
     (if contains ''startup'' company_size then 5
      else if contains ''mid-market'' company_size then 8
      else if contains ''enterprise'' company_size then 10
      else 0)"

definition spec_score :: "lead_data \<Rightarrow> real" where
  "spec_score d =
     min 10
       (5
        + (if list_ex (\<lambda>k. contains k (lower (get_str (ld_title d)))) title_keywords
           then 2 else 0)
        + spec_size_bonus (lower (get_str (ld_company_size d)))
        + (if list_ex (\<lambda>k. contains k (lower (get_str (ld_industry d)))) industry_match
           then 3 else 0))"

section \<open>Python dictionaries and the clock\<close>

text \<open>
  A dictionary keeps its keys in insertion order and holds each key once: it is an
  association list, \<open>dict_set\<close> is \<open>d[k] = v\<close> (an existing key keeps its place),
  \<open>dict_get\<close> is \<open>d.get(k)\<close> and \<open>dict_in\<close> is \<open>k in d\<close>.
  \<open>count_key\<close> counts the entries stored under a key.
\<close>

fun dict_set :: "'k \<Rightarrow> 'v \<Rightarrow> ('k \<times> 'v) list \<Rightarrow> ('k \<times> 'v) list" where
  "dict_set k v [] = [(k, v)]"
| "dict_set k v ((k', v') # d) =
     (if k' = k then (k, v) # d else (k', v') # dict_set k v d)"

fun dict_get :: "('k \<times> 'v) list \<Rightarrow> 'k \<Rightarrow> 'v option" where
  "dict_get [] k = None"
| "dict_get ((k', v') # d) k = (if k' = k then Some v' else dict_get d k)"

definition dict_in :: "'k \<Rightarrow> ('k \<times> 'v) list \<Rightarrow> bool" where
  "dict_in k d = (dict_get d k \<noteq> None)"

definition count_key :: "'k \<Rightarrow> ('k \<times> 'v) list \<Rightarrow> nat" where
  "count_key k d = length (filter (\<lambda>kv. fst kv = k) d)"

text \<open>A \<open>datetime\<close> is its number of seconds since the epoch; its ISO rendering is
  identified with the value. Three days are 259200 seconds.\<close>

type_synonym datetime = real

definition timedelta_days :: "nat \<Rightarrow> real" where
  "timedelta_days n = 86400 * real n"

section \<open>Data model\<close>

text \<open>A note \<open>f"Sent {template_type} email at {now.isoformat()}"\<close> is kept as its
  two holes.\<close>

datatype lead_note = SentNote string datetime

record Lead =
  lead_id :: string
  name :: string
  email :: string
  company :: string
  title :: string
  source :: string
  score :: real
  created_at :: datetime
  status :: string
  contact_attempts :: int
  last_contacted :: "datetime option"
  lead_notes :: "lead_note list"

text \<open>Lead objects are shared between the lead table, the prospects and the batches
  handed to the nurture stage, and they are mutated in place: an object is a reference
  into \<open>lead_objects\<close>.\<close>

type_synonym ref = nat

record Prospect =
  lead :: ref
  qualification_score :: real
  pain_points :: "string list"
  budget_range :: "string option"
  timeline :: "string option"
  decision_maker :: bool
  next_action :: string
  meeting_scheduled :: bool

record meeting =
  m_id :: string
  m_prospect_id :: "string option"
  m_type :: string
  m_scheduled_time :: datetime
  m_duration :: int
  m_status :: string
  m_created_at :: datetime

record DepartmentMetrics =
  leads_generated :: int
  leads_qualified :: int
  messages_composed :: int
  emails_sent :: int
  responses_received :: int
  meetings_booked :: int
  total_workflows_executed :: int
  average_execution_time :: real
  last_execution :: "datetime option"
  success_rate :: real
  personalization_score :: real
  response_rate :: real

definition DepartmentMetrics_init :: DepartmentMetrics where
  "DepartmentMetrics_init =
     \<lparr>leads_generated = 0, leads_qualified = 0, messages_composed = 0, emails_sent = 0,
      responses_received = 0, meetings_booked = 0, total_workflows_executed = 0,
      average_execution_time = 0, last_execution = None, success_rate = 0,
      personalization_score = 0, response_rate = 0\<rparr>"

text \<open>The mutable state of a \<open>SalesDepartment\<close>; \<open>ticks\<close> counts the reads of the
  wall clock made so far (\<open>datetime.now()\<close> and \<open>datetime.utcnow()\<close> both read it).\<close>

record SalesDepartment =
  metrics :: DepartmentMetrics
  lead_objects :: "ref \<Rightarrow> Lead"
  next_ref :: ref
  leads_database :: "(string \<times> ref) list"
  prospects_pipeline :: "(string \<times> Prospect) list"
  meetings_scheduled :: "meeting list"
  ticks :: nat

subsection \<open>External collaborators\<close>

record ScanCriteria =
  sc_industries :: "string list"
  sc_titles :: "string list"
  sc_company_sizes :: "string list option"
  sc_min_score :: real
  sc_max_results :: int

record ScannedLead =
  sl_lead_id :: string
  sl_contact_full_name :: string
  sl_company_name :: string
  sl_outreach_priority :: string

record OutreachConfig =
  oc_category :: string
  oc_tone :: string
  oc_personalization_depth :: string
  oc_sender_name :: string
  oc_sender_title :: string
  oc_sender_company :: string

record OutreachMessage =
  om_subject :: string
  om_body :: string
  om_personalization_score :: real
  om_predicted_response_rate :: real
  om_ab_variants :: nat

text \<open>
  What the department reaches through \<open>self\<close> and does not define: the wall clock
  (\<open>clock c k\<close> is the \<open>k\<close>-th reading), the two agents (absent when the import of
  the real agents failed; a call may raise, \<open>Inl\<close> carrying the message), the
  enumeration \<open>ToneStyle\<close> and \<open>save_state\<close> of the base class.
\<close>

text \<open>Modelled from the spec: \<open>save_state\<close> of the base class \<open>Department\<close> is missing from
  the sources. The persistent store is a best-effort checkpoint: saving reads the state,
  leaves it as it is, and may fail (\<open>Some\<close> message).\<close>

record collab =
  clock :: "nat \<Rightarrow> datetime"
  lead_scanner :: "(ScanCriteria \<Rightarrow> string + ScannedLead list) option"
  outreach_composer :: "(ScannedLead \<Rightarrow> OutreachConfig \<Rightarrow> string + OutreachMessage) option"
  tone_style :: "string \<Rightarrow> string + string"
  save_state :: "SalesDepartment \<Rightarrow> string option"

definition utcnow :: "collab \<Rightarrow> SalesDepartment \<Rightarrow> datetime \<times> SalesDepartment" where
  "utcnow c st = (clock c (ticks st), st\<lparr>ticks := Suc (ticks st)\<rparr>)"

definition get_lead :: "SalesDepartment \<Rightarrow> ref \<Rightarrow> Lead" where
  "get_lead st r = lead_objects st r"

definition upd_lead :: "ref \<Rightarrow> (Lead \<Rightarrow> Lead) \<Rightarrow> SalesDepartment \<Rightarrow> SalesDepartment" where
  "upd_lead r f st = st\<lparr>lead_objects := (lead_objects st)(r := f (lead_objects st r))\<rparr>"

section \<open>Nurture stage\<close>

text \<open>\<open>_send_outreach_email\<close>: appends the note and returns \<open>True\<close>; with the notes a
  list nothing in its body raises, so its handler (which would return \<open>False\<close>) is
  never entered.\<close>

definition send_outreach_email ::
  "collab \<Rightarrow> ref \<Rightarrow> string \<Rightarrow> SalesDepartment \<Rightarrow> (string + bool) \<times> SalesDepartment" where
  "send_outreach_email c r template_type st =
     (let (now, st1) = utcnow c st
      in (Inr True, upd_lead r (\<lambda>l. l\<lparr>lead_notes := lead_notes l @ [SentNote template_type now]\<rparr>) st1))"

text \<open>\<open>_qualify_lead\<close>.\<close>

definition qualify_lead ::
  "ref \<Rightarrow> SalesDepartment \<Rightarrow> (string + Prospect option) \<times> SalesDepartment" where
  "qualify_lead r st =
     (let l = get_lead st r
      in if score l \<ge> 7
         then (Inr (Some \<lparr>lead = r, qualification_score = score l,
                 pain_points = [''automation'', ''efficiency''],
                 budget_range = Some ''10k-50k'', timeline = Some ''Q1'',
                 decision_maker = (score l \<ge> 8), next_action = ''schedule_meeting'',
                 meeting_scheduled = False\<rparr>), st)
         else (Inr None, st))"

record nurturing_results =
  leads_contacted :: int
  nr_emails_sent :: int
  nr_responses_received :: int
  prospects_qualified :: int
  errors :: "string list"

definition nurturing_results_init :: nurturing_results where
  "nurturing_results_init =
     \<lparr>leads_contacted = 0, nr_emails_sent = 0, nr_responses_received = 0,
      prospects_qualified = 0, errors = []\<rparr>"

text \<open>
  The body of the loop of \<open>nurture_prospects\<close>. The two helper coroutines are looked up on
  \<open>self\<close> when they are awaited, so the body takes them as \<open>send\<close> and \<open>qualify\<close>: a
  helper returns its value or raises, and has the state it left behind in both cases.
  The first component of a step is the exception that left it, if any.
\<close>

type_synonym send_fn =
  "collab \<Rightarrow> ref \<Rightarrow> string \<Rightarrow> SalesDepartment \<Rightarrow> (string + bool) \<times> SalesDepartment"
type_synonym qualify_fn =
  "ref \<Rightarrow> SalesDepartment \<Rightarrow> (string + Prospect option) \<times> SalesDepartment"

definition mark_contacted ::
  "collab \<Rightarrow> ref \<Rightarrow> bool \<Rightarrow> nurturing_results \<times> SalesDepartment
     \<Rightarrow> nurturing_results \<times> SalesDepartment" where
  "mark_contacted c r initial rs =
     (let (res, st) = rs;
          res1 = res\<lparr>nr_emails_sent := nr_emails_sent res + 1\<rparr>;
          st1 = upd_lead r (\<lambda>l. l\<lparr>contact_attempts := contact_attempts l + 1\<rparr>) st;
          (now, st2) = utcnow c st1;
          st3 = upd_lead r (\<lambda>l. l\<lparr>last_contacted := Some now\<rparr>) st2
      in (res1, if initial then upd_lead r (\<lambda>l. l\<lparr>status := ''contacted''\<rparr>) st3 else st3))"

definition contact_step ::
  "send_fn \<Rightarrow> collab \<Rightarrow> ref \<Rightarrow> nurturing_results \<times> SalesDepartment
     \<Rightarrow> string option \<times> nurturing_results \<times> SalesDepartment" where
  "contact_step send c r rs =
     (let (res, st) = rs; l = get_lead st r
      in if status l = ''new'' then
           (case send c r ''cold_outreach'' st of
              (Inl e, st1) \<Rightarrow> (Some e, res, st1)
            | (Inr email_sent, st1) \<Rightarrow>
                if email_sent then (None, mark_contacted c r True (res, st1))
                else (None, res, st1))
         else if status l = ''contacted'' \<and> contact_attempts l < 3 then
           (case send c r ''follow_up'' st of
              (Inl e, st1) \<Rightarrow> (Some e, res, st1)
            | (Inr email_sent, st1) \<Rightarrow>
                if email_sent then (None, mark_contacted c r False (res, st1))
                else (None, res, st1))
         else (None, res, st))"

definition qualify_step ::
  "qualify_fn \<Rightarrow> ref \<Rightarrow> nurturing_results \<times> SalesDepartment
     \<Rightarrow> string option \<times> nurturing_results \<times> SalesDepartment" where
  "qualify_step qualify r rs =
     (let (res, st) = rs; l = get_lead st r
      in if score l > 7 \<and> contact_attempts l \<ge> 2 then
           (case qualify r st of
              (Inl e, st1) \<Rightarrow> (Some e, res, st1)
            | (Inr None, st1) \<Rightarrow> (None, res, st1)
            | (Inr (Some prospect), st1) \<Rightarrow>
                (None, res\<lparr>prospects_qualified := prospects_qualified res + 1\<rparr>,
                 upd_lead r (\<lambda>l. l\<lparr>status := ''qualified''\<rparr>)
                   (st1\<lparr>prospects_pipeline :=
                      dict_set (lead_id (get_lead st1 r)) prospect (prospects_pipeline st1)\<rparr>)))
         else (None, res, st))"

definition nurture_error :: "string \<Rightarrow> string \<Rightarrow> string" where
  "nurture_error lid e = ''Error nurturing lead '' @ lid @ '': '' @ e"

definition nurture_except ::
  "ref \<Rightarrow> string \<Rightarrow> nurturing_results \<times> SalesDepartment
     \<Rightarrow> nurturing_results \<times> SalesDepartment" where
  "nurture_except r e rs =
     (let (res, st) = rs
      in (res\<lparr>errors := errors res @ [nurture_error (lead_id (get_lead st r)) e]\<rparr>, st))"

definition nurture_item ::
  "send_fn \<Rightarrow> qualify_fn \<Rightarrow> collab \<Rightarrow> ref \<Rightarrow> nurturing_results \<times> SalesDepartment
     \<Rightarrow> nurturing_results \<times> SalesDepartment" where
  "nurture_item send qualify c r rs =
     (case contact_step send c r rs of
        (Some e, rs1) \<Rightarrow> nurture_except r e rs1
      | (None, rs1) \<Rightarrow>
          (case qualify_step qualify r rs1 of
             (Some e, rs2) \<Rightarrow> nurture_except r e rs2
           | (None, res2, st2) \<Rightarrow> (res2\<lparr>leads_contacted := leads_contacted res2 + 1\<rparr>, st2)))"

fun nurture_loop ::
  "send_fn \<Rightarrow> qualify_fn \<Rightarrow> collab \<Rightarrow> ref list \<Rightarrow> nurturing_results \<times> SalesDepartment
     \<Rightarrow> nurturing_results \<times> SalesDepartment" where
  "nurture_loop send qualify c [] rs = rs"
| "nurture_loop send qualify c (r # leads) rs =
     nurture_loop send qualify c leads (nurture_item send qualify c r rs)"

text \<open>\<open>nurture_prospects\<close> returns the counts, or the failure dictionary when
  \<open>save_state\<close> raised after the loop.\<close>

datatype nurture_outcome = Nurtured nurturing_results | NurtureFailed string

definition nurture_prospects_with ::
  "send_fn \<Rightarrow> qualify_fn \<Rightarrow> collab \<Rightarrow> ref list \<Rightarrow> SalesDepartment
     \<Rightarrow> nurture_outcome \<times> SalesDepartment" where
  "nurture_prospects_with send qualify c leads st =
     (let (res, st1) = nurture_loop send qualify c leads (nurturing_results_init, st)
      in case save_state c st1 of
           Some e \<Rightarrow> (NurtureFailed e, st1)
         | None \<Rightarrow> (Nurtured res, st1))"

text \<open>The method as the class has it, with its own two helpers.\<close>

definition nurture_prospects ::
  "collab \<Rightarrow> ref list \<Rightarrow> SalesDepartment \<Rightarrow> nurture_outcome \<times> SalesDepartment" where
  "nurture_prospects = nurture_prospects_with send_outreach_email qualify_lead"

section \<open>Numbers in strings\<close>

text \<open>\<open>int(x)\<close> truncates towards zero; \<open>str(n)\<close> is the decimal numeral.\<close>

definition py_int :: "real \<Rightarrow> int" where
  "py_int x = (if 0 \<le> x then \<lfloor>x\<rfloor> else \<lceil>x\<rceil>)"

function string_of_nat :: "nat \<Rightarrow> string" where
  "string_of_nat n =
     (if n < 10 then [char_of (48 + n)]
      else string_of_nat (n div 10) @ [char_of (48 + n mod 10)])"
  by pat_completeness auto
termination
  by (relation "measure (\<lambda>n. n)") auto

declare string_of_nat.simps [simp del]

definition string_of_int :: "int \<Rightarrow> string" where
  "string_of_int i = (if i < 0 then CHR ''-'' # string_of_nat (nat (- i)) else string_of_nat (nat i))"

section \<open>Discovery stage, local generator\<close>

text \<open>The criteria dictionary of \<open>find_new_leads\<close>.\<close>

record criteria =
  cr_titles :: "string list option"
  cr_industries :: "string list option"
  cr_company_sizes :: "string list option"
  cr_max_leads :: "int option"

definition criteria_empty :: criteria where
  "criteria_empty =
     \<lparr>cr_titles = None, cr_industries = None, cr_company_sizes = None, cr_max_leads = None\<rparr>"

definition get_or :: "'a \<Rightarrow> 'a option \<Rightarrow> 'a" where
  "get_or d v = (case v of None \<Rightarrow> d | Some x \<Rightarrow> x)"

text \<open>\<open>xs[i % len(xs)]\<close> raises \<open>ZeroDivisionError\<close> on the empty list.\<close>

definition cycle_get :: "'a list \<Rightarrow> nat \<Rightarrow> string + 'a" where
  "cycle_get xs i =
     (if length xs = 0 then Inl ''integer division or modulo by zero''
      else Inr (xs ! (i mod length xs)))"

text \<open>One round of the loop of \<open>find_new_leads\<close>: the new Lead object is allocated at
  \<open>next_ref\<close>, appended to \<open>new_leads\<close> and stored under its id.\<close>

definition find_item ::
  "collab \<Rightarrow> string list \<Rightarrow> string list \<Rightarrow> string list \<Rightarrow> nat
     \<Rightarrow> ref list \<times> SalesDepartment \<Rightarrow> string option \<times> ref list \<times> SalesDepartment" where
  "find_item c titles industries company_sizes i ns =
     (let (new_leads, st) = ns;
          (now, st1) = utcnow c st;
          lid = ''lead_'' @ string_of_int (py_int now) @ ''_'' @ string_of_nat i;
          k = string_of_nat (i + 1)
      in case cycle_get titles i of Inl e \<Rightarrow> (Some e, new_leads, st1)
         | Inr t \<Rightarrow>
      (case cycle_get industries i of Inl e \<Rightarrow> (Some e, new_leads, st1)
         | Inr ind \<Rightarrow>
      (case cycle_get company_sizes i of Inl e \<Rightarrow> (Some e, new_leads, st1)
         | Inr sz \<Rightarrow>
        (let sc = calculate_lead_score
                    \<lparr>ld_title = Some t, ld_company_size = Some sz, ld_industry = Some ind\<rparr>;
             (created, st2) = utcnow c st1;
             l = \<lparr>lead_id = lid, name = ''Contact '' @ k,
                  email = ''contact'' @ k @ ''@company'' @ k @ ''.com'',
                  company = ''Company '' @ k, title = t, source = ''linkedin_scan'',
                  score = sc, created_at = created, status = ''new'', contact_attempts = 0,
                  last_contacted = None, lead_notes = []\<rparr>;
             r = next_ref st2;
             st3 = st2\<lparr>lead_objects := (lead_objects st2)(r := l), next_ref := Suc r,
                     leads_database := dict_set lid r (leads_database st2)\<rparr>
         in (None, new_leads @ [r], st3)))))"

fun find_loop ::
  "collab \<Rightarrow> string list \<Rightarrow> string list \<Rightarrow> string list \<Rightarrow> nat list
     \<Rightarrow> ref list \<times> SalesDepartment \<Rightarrow> string option \<times> ref list \<times> SalesDepartment" where
  "find_loop c titles industries company_sizes [] ns = (None, ns)"
| "find_loop c titles industries company_sizes (i # is) ns =
     (case find_item c titles industries company_sizes i ns of
        (Some e, ns1) \<Rightarrow> (Some e, ns1)
      | (None, ns1) \<Rightarrow> find_loop c titles industries company_sizes is ns1)"

text \<open>\<open>find_new_leads\<close>: any exception, of the loop or of \<open>save_state\<close>, makes it
  return the empty list; the leads stored before the exception stay stored.\<close>

definition find_new_leads ::
  "collab \<Rightarrow> criteria \<Rightarrow> SalesDepartment \<Rightarrow> ref list \<times> SalesDepartment" where
  "find_new_leads c cr st =
     (let titles = get_or [''CEO'', ''CTO'', ''VP''] (cr_titles cr);
          industries = get_or [''Technology'', ''SaaS''] (cr_industries cr);
          company_sizes = get_or [''11-50'', ''51-200''] (cr_company_sizes cr);
          n = nat (get_or 10 (cr_max_leads cr))
      in case find_loop c titles industries company_sizes [0..<n] ([], st) of
           (Some e, new_leads, st1) \<Rightarrow> ([], st1)
         | (None, new_leads, st1) \<Rightarrow>
             (case save_state c st1 of
                Some e \<Rightarrow> ([], st1)
              | None \<Rightarrow> (new_leads, st1)))"

section \<open>Scheduling stage\<close>

record prospect_data =
  pd_prospect_id :: "string option"
  pd_meeting_type :: "string option"
  pd_preferred_times :: "string list option"

text \<open>\<open>_find_available_slot\<close>, the stub: the reading of the clock plus three days.\<close>

definition find_available_slot ::
  "collab \<Rightarrow> string \<Rightarrow> string list \<Rightarrow> SalesDepartment \<Rightarrow> datetime option \<times> SalesDepartment" where
  "find_available_slot c meeting_type preferred_times st =
     (let (now, st1) = utcnow c st in (Some (now + timedelta_days 3), st1))"

record scheduling_results =
  meetings_requested :: int
  meetings_confirmed :: int
  calendar_conflicts :: int
  scheduled_meetings :: "meeting list"
  sr_errors :: "string list"

definition scheduling_results_init :: scheduling_results where
  "scheduling_results_init =
     \<lparr>meetings_requested = 0, meetings_confirmed = 0, calendar_conflicts = 0,
      scheduled_meetings = [], sr_errors = []\<rparr>"

definition mark_scheduled :: "string option \<Rightarrow> SalesDepartment \<Rightarrow> SalesDepartment" where
  "mark_scheduled prospect_id st =
     (case prospect_id of
        None \<Rightarrow> st
      | Some pid \<Rightarrow>
          (case dict_get (prospects_pipeline st) pid of
             None \<Rightarrow> st
           | Some p \<Rightarrow>
               st\<lparr>prospects_pipeline :=
                    dict_set pid (p\<lparr>meeting_scheduled := True, next_action := ''attend_meeting''\<rparr>)
                      (prospects_pipeline st)\<rparr>))"

text \<open>The body of the loop of \<open>schedule_meetings\<close>. Nothing in it raises on a
  dictionary with the stub above, so the handler of the loop is never entered.\<close>

definition schedule_item ::
  "collab \<Rightarrow> prospect_data \<Rightarrow> scheduling_results \<times> SalesDepartment
     \<Rightarrow> scheduling_results \<times> SalesDepartment" where
  "schedule_item c pd rs =
     (let (res, st) = rs;
          prospect_id = pd_prospect_id pd;
          meeting_type = get_or ''discovery_call'' (pd_meeting_type pd);
          preferred_times = get_or [] (pd_preferred_times pd);
          (available_slot, st1) = find_available_slot c meeting_type preferred_times st;
          (res2, st2) =
            (case available_slot of
               Some slot \<Rightarrow>
                 (let (t_id, sa) = utcnow c st1;
                      (t_created, sb) = utcnow c sa;
                      m = \<lparr>m_id = ''meeting_'' @ string_of_int (py_int t_id),
                           m_prospect_id = prospect_id, m_type = meeting_type,
                           m_scheduled_time = slot, m_duration = 30,
                           m_status = ''confirmed'', m_created_at = t_created\<rparr>;
                      sc = sb\<lparr>meetings_scheduled := meetings_scheduled sb @ [m]\<rparr>
                  in (res\<lparr>meetings_confirmed := meetings_confirmed res + 1,
                            scheduled_meetings := scheduled_meetings res @ [m]\<rparr>,
                      mark_scheduled prospect_id sc))
             | None \<Rightarrow> (res\<lparr>calendar_conflicts := calendar_conflicts res + 1\<rparr>, st1))
      in (res2\<lparr>meetings_requested := meetings_requested res2 + 1\<rparr>, st2))"

fun schedule_loop ::
  "collab \<Rightarrow> prospect_data list \<Rightarrow> scheduling_results \<times> SalesDepartment
     \<Rightarrow> scheduling_results \<times> SalesDepartment" where
  "schedule_loop c [] rs = rs"
| "schedule_loop c (pd # prospects) rs = schedule_loop c prospects (schedule_item c pd rs)"

datatype schedule_outcome = Scheduled scheduling_results | ScheduleFailed string

definition schedule_meetings ::
  "collab \<Rightarrow> prospect_data list \<Rightarrow> SalesDepartment \<Rightarrow> schedule_outcome \<times> SalesDepartment" where
  "schedule_meetings c prospects st =
     (let (res, st1) = schedule_loop c prospects (scheduling_results_init, st)
      in case save_state c st1 of
           Some e \<Rightarrow> (ScheduleFailed e, st1)
         | None \<Rightarrow> (Scheduled res, st1))"

section \<open>Reporting stage\<close>

text \<open>True division raises \<open>ZeroDivisionError\<close> on a zero divisor.\<close>

definition py_truediv :: "real \<Rightarrow> real \<Rightarrow> string + real" where
  "py_truediv a b = (if b = 0 then Inl ''division by zero'' else Inr (a / b))"

record pipeline_report =
  report_timestamp :: datetime
  total_leads :: int
  total_prospects :: int
  total_meetings :: int
  pipeline_value :: real
  lead_to_prospect_conversion :: real
  lead_to_meeting_conversion :: real
  lead_breakdown :: "(string \<times> int) list"
  leads_target :: int
  meetings_target :: int
  pipeline_value_target :: int
  recent_activity :: "(string \<times> int \<times> datetime) list"
  recommendations :: "string list"
  pipeline_health :: string
  activity_level :: string
  conversion_health :: string

datatype report_outcome = Report pipeline_report | ReportFailed string

fun breakdown_loop :: "SalesDepartment \<Rightarrow> ref list \<Rightarrow> (string \<times> int) list \<Rightarrow> (string \<times> int) list" where
  "breakdown_loop st [] b = b"
| "breakdown_loop st (r # rs) b =
     breakdown_loop st rs
       (dict_set (status (get_lead st r)) (get_or 0 (dict_get b (status (get_lead st r))) + 1) b)"

definition get_recent_activity ::
  "collab \<Rightarrow> SalesDepartment \<Rightarrow> (string \<times> int \<times> datetime) list \<times> SalesDepartment" where
  "get_recent_activity c st =
     (let (t1, st1) = utcnow c st; (t2, st2) = utcnow c st1; (t3, st3) = utcnow c st2
      in ([(''Lead generation'', int (length (leads_database st)), t1),
           (''Prospect qualification'', int (length (prospects_pipeline st)), t2),
           (''Meeting scheduling'', int (length (meetings_scheduled st)), t3)], st3))"

definition generate_pipeline_recommendations :: "SalesDepartment \<Rightarrow> string list" where
  "generate_pipeline_recommendations st =
     (let recs =
            (if length (leads_database st) < 10
             then [''Increase lead generation activity - current lead count is below optimal'']
             else [])
            @ (if length (prospects_pipeline st) = 0
               then [''Focus on lead qualification - no qualified prospects in pipeline'']
               else [])
            @ (if length (meetings_scheduled st) = 0
               then [''Prioritize meeting scheduling with qualified prospects'']
               else [])
      in if recs \<noteq> [] then recs
         else [''Pipeline is performing well - continue current activities''])"

text \<open>The two ratios of \<open>report_pipeline_status\<close>, under the guard of the source; a
  division that raised would leave through the handler of the method.\<close>

definition conversion_rates :: "int \<Rightarrow> int \<Rightarrow> int \<Rightarrow> string + real \<times> real" where
  "conversion_rates n_leads n_prospects n_meetings =
     (if n_leads > 0 then
        (case py_truediv (real_of_int n_prospects) (real_of_int n_leads) of
           Inl e \<Rightarrow> Inl e
         | Inr p \<Rightarrow>
             (case py_truediv (real_of_int n_meetings) (real_of_int n_leads) of
                Inl e \<Rightarrow> Inl e
              | Inr m \<Rightarrow> Inr (p, m)))
      else Inr (0, 0))"

definition report_pipeline_status ::
  "collab \<Rightarrow> SalesDepartment \<Rightarrow> report_outcome \<times> SalesDepartment" where
  "report_pipeline_status c st =
     (let n_leads = int (length (leads_database st));
          n_prospects = int (length (prospects_pipeline st));
          n_meetings = int (length (meetings_scheduled st));
          breakdown = breakdown_loop st (map snd (leads_database st)) []
      in case conversion_rates n_leads n_prospects n_meetings of
           Inl e \<Rightarrow> (ReportFailed e, st)
         | Inr (lead_to_prospect_rate, lead_to_meeting_rate) \<Rightarrow>
             (let total_pipeline_value =
                    sum_list (map (\<lambda>kv. score (get_lead st (lead (snd kv))) * 1000)
                                (prospects_pipeline st));
                  (activity, st1) = get_recent_activity c st;
                  recs = generate_pipeline_recommendations st1;
                  (stamp, st2) = utcnow c st1
              in (Report
                    \<lparr>report_timestamp = stamp, total_leads = n_leads,
                     total_prospects = n_prospects, total_meetings = n_meetings,
                     pipeline_value = total_pipeline_value,
                     lead_to_prospect_conversion = lead_to_prospect_rate,
                     lead_to_meeting_conversion = lead_to_meeting_rate,
                     lead_breakdown = breakdown,
                     leads_target = 100, meetings_target = 20, pipeline_value_target = 50000,
                     recent_activity = activity, recommendations = recs,
                     pipeline_health = (if n_prospects > 0 then ''healthy'' else ''needs_attention''),
                     activity_level = (if n_leads > 10 then ''high'' else ''low''),
                     conversion_health =
                       (if lead_to_prospect_rate > 1 / 10 then ''good'' else ''needs_improvement'')\<rparr>,
                  st2)))"

section \<open>Workflows\<close>

text \<open>The configuration dictionary of a workflow request, a field per key that some
  workflow reads; \<open>None\<close> is an absent key.\<close>

record config =
  workflow_type :: "string option"
  cfg_industries :: "string list option"
  cfg_titles :: "string list option"
  cfg_company_sizes :: "string list option"
  cfg_min_score :: "real option"
  cfg_max_results :: "int option"
  cfg_campaign_size :: "int option"
  cfg_message_tone :: "string option"
  cfg_sender_name :: "string option"
  cfg_sender_title :: "string option"
  cfg_sender_company :: "string option"
  cfg_criteria :: "criteria option"
  cfg_lead_criteria :: "criteria option"
  cfg_lead_ids :: "string list option"
  cfg_prospects :: "prospect_data list option"

definition config_empty :: config where
  "config_empty =
     \<lparr>workflow_type = None, cfg_industries = None, cfg_titles = None,
      cfg_company_sizes = None, cfg_min_score = None, cfg_max_results = None,
      cfg_campaign_size = None, cfg_message_tone = None, cfg_sender_name = None,
      cfg_sender_title = None, cfg_sender_company = None, cfg_criteria = None,
      cfg_lead_criteria = None, cfg_lead_ids = None, cfg_prospects = None\<rparr>"

record campaign_summary =
  cs_leads_found :: int
  cs_messages_generated :: int
  cs_avg_personalization_score :: real
  cs_avg_response_rate :: real
  cs_estimated_responses :: int
  cs_campaign_size :: int

record campaign_message =
  cm_lead_id :: string
  cm_contact_name :: string
  cm_company_name :: string
  cm_subject :: string
  cm_body :: string
  cm_personalization_score :: real
  cm_predicted_response_rate :: real
  cm_priority :: string
  cm_ab_variants :: nat

text \<open>
  The result dictionaries. \<open>Failure error workflow_type execution_time\<close> is a dictionary
  with \<open>success: False\<close>; every other one has \<open>success: True\<close>, except the one of the
  fallback for an unknown workflow type.
\<close>

datatype envelope =
    LeadGenerationResult int "ScannedLead list" real DepartmentMetrics
  | LeadGenerationMock int "(string \<times> string \<times> string \<times> real) list"
  | QuickWinsEmpty real
  | QuickWinsResult int int "(ScannedLead \<times> OutreachMessage) list" real DepartmentMetrics
  | FullOutreachEmpty real
  | FullOutreachResult campaign_summary "campaign_message list" real DepartmentMetrics
  | LeadNurturingResult nurture_outcome
  | MeetingSchedulingResult schedule_outcome
  | PipelineReportingResult report_outcome
  | FullPipelineResult "string list" envelope envelope envelope envelope
  | Failure string "string option" "real option"
  | MockFailure string string

text \<open>\<open>results.get("success", False)\<close>, \<open>results.get("leads_found", 0)\<close>,
  \<open>results.get("messages_generated", 0)\<close> and \<open>results.get("campaign_summary", {})\<close>.\<close>

fun success :: "envelope \<Rightarrow> bool" where
  "success (Failure e w t) = False"
| "success (MockFailure e w) = False"
| "success env = True"

fun leads_found :: "envelope \<Rightarrow> int" where
  "leads_found (LeadGenerationResult n ls t m) = n"
| "leads_found (LeadGenerationMock n ls) = n"
| "leads_found (QuickWinsResult n k qs t m) = n"
| "leads_found env = 0"

fun messages_generated :: "envelope \<Rightarrow> int" where
  "messages_generated (QuickWinsResult n k qs t m) = k"
| "messages_generated env = 0"

fun get_campaign_summary :: "envelope \<Rightarrow> campaign_summary option" where
  "get_campaign_summary (FullOutreachResult cs ms t m) = Some cs"
| "get_campaign_summary env = None"

text \<open>\<open>results.get("execution_time")\<close>.\<close>

fun execution_time_of :: "envelope \<Rightarrow> real option" where
  "execution_time_of (LeadGenerationResult n ls t m) = Some t"
| "execution_time_of (QuickWinsEmpty t) = Some t"
| "execution_time_of (QuickWinsResult n k qs t m) = Some t"
| "execution_time_of (FullOutreachEmpty t) = Some t"
| "execution_time_of (FullOutreachResult cs ms t m) = Some t"
| "execution_time_of (Failure e w t) = t"
| "execution_time_of env = None"

definition upd_metrics ::
  "(DepartmentMetrics \<Rightarrow> DepartmentMetrics) \<Rightarrow> SalesDepartment \<Rightarrow> SalesDepartment" where
  "upd_metrics f st = st\<lparr>metrics := f (metrics st)\<rparr>"

subsection \<open>Lead generation\<close>

definition execute_lead_generation_mock ::
  "collab \<Rightarrow> config \<Rightarrow> SalesDepartment \<Rightarrow> envelope \<times> SalesDepartment" where
  "execute_lead_generation_mock c cfg st =
     (let cr = get_or \<lparr>cr_titles = Some [''CEO'', ''CTO'', ''VP Engineering''],
                       cr_industries = None, cr_company_sizes = None,
                       cr_max_leads = Some 20\<rparr> (cfg_criteria cfg);
          (new_leads, st1) = find_new_leads c cr st
      in (LeadGenerationMock (int (length new_leads))
            (map (\<lambda>r. (lead_id (get_lead st1 r), name (get_lead st1 r),
                        company (get_lead st1 r), score (get_lead st1 r))) new_leads),
          st1))"

text \<open>The incremental update of \<open>average_execution_time\<close>, under the guard of the
  source (the division is by a positive count).\<close>

definition update_average :: "real \<Rightarrow> DepartmentMetrics \<Rightarrow> DepartmentMetrics" where
  "update_average execution_time m =
     (if total_workflows_executed m > 0
      then m\<lparr>average_execution_time :=
               (average_execution_time m * real_of_int (total_workflows_executed m - 1)
                  + execution_time)
               / real_of_int (total_workflows_executed m)\<rparr>
      else m)"

text \<open>\<open>_execute_lead_generation_workflow\<close>. The writes of the leads to Redis change
  nothing of the department and their failures are swallowed; they are left out.\<close>

definition execute_lead_generation_workflow ::
  "collab \<Rightarrow> config \<Rightarrow> SalesDepartment \<Rightarrow> envelope \<times> SalesDepartment" where
  "execute_lead_generation_workflow c cfg st =
     (let (start_time, st0) = utcnow c st
      in case lead_scanner c of
           None \<Rightarrow> execute_lead_generation_mock c cfg st0
         | Some scan \<Rightarrow>
             (case scan \<lparr>sc_industries = get_or [] (cfg_industries cfg),
                          sc_titles = get_or [] (cfg_titles cfg),
                          sc_company_sizes = Some (get_or [] (cfg_company_sizes cfg)),
                          sc_min_score = get_or 60 (cfg_min_score cfg),
                          sc_max_results = get_or 50 (cfg_max_results cfg)\<rparr> of
                Inl e \<Rightarrow>
                  (let (t, st1) = utcnow c st0
                   in (Failure e (Some ''lead_generation'') (Some (t - start_time)), st1))
              | Inr leads \<Rightarrow>
                  (let st1 = upd_metrics (\<lambda>m. m\<lparr>leads_generated :=
                                leads_generated m + int (length leads)\<rparr>) st0;
                       (t, st2) = utcnow c st1;
                       execution_time = t - start_time;
                       st3 = upd_metrics (\<lambda>m. m\<lparr>total_workflows_executed :=
                                total_workflows_executed m + 1\<rparr>) st2;
                       (t_last, st4) = utcnow c st3;
                       st5 = upd_metrics (\<lambda>m. m\<lparr>last_execution := Some t_last\<rparr>) st4;
                       st6 = upd_metrics (update_average execution_time) st5
                   in (LeadGenerationResult (int (length leads)) (take 10 leads)
                         execution_time (metrics st6), st6))))"

subsection \<open>Quick wins and full outreach\<close>

definition outreach_config ::
  "string \<Rightarrow> string \<Rightarrow> config \<Rightarrow> OutreachConfig" where
  "outreach_config tone depth cfg =
     \<lparr>oc_category = ''cold_outreach'', oc_tone = tone, oc_personalization_depth = depth,
      oc_sender_name = get_or ''Sales Team'' (cfg_sender_name cfg),
      oc_sender_title = get_or ''Account Executive'' (cfg_sender_title cfg),
      oc_sender_company = get_or ''Our Company'' (cfg_sender_company cfg)\<rparr>"

text \<open>The loop of \<open>_execute_quick_wins_workflow\<close>: a lead whose composition raises is
  logged and skipped. The tone \<open>ToneStyle.FORMAL\<close> is written \<open>formal\<close>.\<close>

fun quick_wins_loop ::
  "(ScannedLead \<Rightarrow> OutreachConfig \<Rightarrow> string + OutreachMessage) \<Rightarrow> OutreachConfig
     \<Rightarrow> ScannedLead list \<Rightarrow> (ScannedLead \<times> OutreachMessage) list \<times> SalesDepartment
     \<Rightarrow> (ScannedLead \<times> OutreachMessage) list \<times> SalesDepartment" where
  "quick_wins_loop compose oc [] acc = acc"
| "quick_wins_loop compose oc (l # ls) (results, st) =
     quick_wins_loop compose oc ls
       (case compose l oc of
          Inl e \<Rightarrow> (results, st)
        | Inr message \<Rightarrow>
            (results @ [(l, message)],
             upd_metrics (\<lambda>m. m\<lparr>messages_composed := messages_composed m + 1\<rparr>) st))"

definition execute_quick_wins_workflow ::
  "collab \<Rightarrow> config \<Rightarrow> SalesDepartment \<Rightarrow> envelope \<times> SalesDepartment" where
  "execute_quick_wins_workflow c cfg st =
     (let (start_time, st0) = utcnow c st
      in case (lead_scanner c, outreach_composer c) of
           (Some scan, Some compose) \<Rightarrow>
             (case scan \<lparr>sc_industries = get_or [''SaaS'', ''FinTech''] (cfg_industries cfg),
                          sc_titles = get_or [''CTO'', ''VP'', ''Director''] (cfg_titles cfg),
                          sc_company_sizes = None, sc_min_score = 80, sc_max_results = 5\<rparr> of
                Inl e \<Rightarrow>
                  (let (t, st1) = utcnow c st0
                   in (Failure e (Some ''quick_wins'') (Some (t - start_time)), st1))
              | Inr leads \<Rightarrow>
                  if leads = [] then
                    (let (t, st1) = utcnow c st0 in (QuickWinsEmpty (t - start_time), st1))
                  else
                    (let (outreach_results, st1) =
                           quick_wins_loop compose (outreach_config ''formal'' ''deep'' cfg)
                             leads ([], st0);
                         st2 = upd_metrics (\<lambda>m. m\<lparr>leads_qualified :=
                                  leads_qualified m + int (length leads)\<rparr>) st1;
                         (t, st3) = utcnow c st2;
                         execution_time = t - start_time;
                         st4 = upd_metrics (\<lambda>m. m\<lparr>total_workflows_executed :=
                                  total_workflows_executed m + 1\<rparr>) st3;
                         (t_last, st5) = utcnow c st4;
                         st6 = upd_metrics (\<lambda>m. m\<lparr>last_execution := Some t_last\<rparr>) st5
                     in (QuickWinsResult (int (length leads)) (int (length outreach_results))
                           outreach_results execution_time (metrics st6), st6)))
         | _ \<Rightarrow> (Failure ''Real agents not available'' (Some ''quick_wins'') None, st0))"

text \<open>\<open>round\<close> rounds a half to the even neighbour; \<open>round(x, 2)\<close> does so at the
  second decimal.\<close>

definition py_round :: "real \<Rightarrow> int" where
  "py_round x =
     (let f = \<lfloor>x\<rfloor>; d = x - real_of_int f
      in if d < 1 / 2 then f else if d > 1 / 2 then f + 1 else if even f then f else f + 1)"

definition py_round2 :: "real \<Rightarrow> real" where
  "py_round2 x = real_of_int (py_round (x * 100)) / 100"

fun full_outreach_loop ::
  "(ScannedLead \<Rightarrow> OutreachConfig \<Rightarrow> string + OutreachMessage) \<Rightarrow> OutreachConfig
     \<Rightarrow> ScannedLead list \<Rightarrow> campaign_message list \<times> real \<times> real \<times> SalesDepartment
     \<Rightarrow> campaign_message list \<times> real \<times> real \<times> SalesDepartment" where
  "full_outreach_loop compose oc [] acc = acc"
| "full_outreach_loop compose oc (l # ls) (msgs, total_personalization, total_response_rate, st) =
     full_outreach_loop compose oc ls
       (case compose l oc of
          Inl e \<Rightarrow> (msgs, total_personalization, total_response_rate, st)
        | Inr message \<Rightarrow>
            (msgs @ [\<lparr>cm_lead_id = sl_lead_id l, cm_contact_name = sl_contact_full_name l,
                       cm_company_name = sl_company_name l, cm_subject = om_subject message,
                       cm_body = (if length (om_body message) > 200
                                  then take 200 (om_body message) @ ''...''
                                  else om_body message),
                       cm_personalization_score = om_personalization_score message,
                       cm_predicted_response_rate = om_predicted_response_rate message,
                       cm_priority = sl_outreach_priority l,
                       cm_ab_variants = om_ab_variants message\<rparr>],
             total_personalization + om_personalization_score message,
             total_response_rate + om_predicted_response_rate message,
             upd_metrics (\<lambda>m. m\<lparr>messages_composed := messages_composed m + 1\<rparr>) st))"

definition execute_full_outreach_workflow ::
  "collab \<Rightarrow> config \<Rightarrow> SalesDepartment \<Rightarrow> envelope \<times> SalesDepartment" where
  "execute_full_outreach_workflow c cfg st =
     (let (start_time, st0) = utcnow c st
      in case (lead_scanner c, outreach_composer c) of
           (Some scan, Some compose) \<Rightarrow>
             (case scan \<lparr>sc_industries = get_or [] (cfg_industries cfg),
                          sc_titles = get_or [] (cfg_titles cfg),
                          sc_company_sizes = Some (get_or [] (cfg_company_sizes cfg)),
                          sc_min_score = get_or 65 (cfg_min_score cfg),
                          sc_max_results = get_or 25 (cfg_campaign_size cfg)\<rparr> of
                Inl e \<Rightarrow>
                  (let (t, st1) = utcnow c st0
                   in (Failure e (Some ''full_outreach'') (Some (t - start_time)), st1))
              | Inr leads \<Rightarrow>
                  if leads = [] then
                    (let (t, st1) = utcnow c st0 in (FullOutreachEmpty (t - start_time), st1))
                  else
                    (case tone_style c (get_or ''formal'' (cfg_message_tone cfg)) of
                       Inl e \<Rightarrow>
                         (let (t, st1) = utcnow c st0
                          in (Failure e (Some ''full_outreach'') (Some (t - start_time)), st1))
                     | Inr tone \<Rightarrow>
                         (let (msgs, total_personalization, total_response_rate, st1) =
                                full_outreach_loop compose (outreach_config tone ''moderate'' cfg)
                                  leads ([], 0, 0, st0);
                              avg_personalization =
                                (if msgs \<noteq> [] then total_personalization / real (length msgs)
                                 else 0);
                              avg_response_rate =
                                (if msgs \<noteq> [] then total_response_rate / real (length msgs)
                                 else 0);
                              st2 = upd_metrics (\<lambda>m. m\<lparr>leads_qualified :=
                                       leads_qualified m + int (length leads),
                                       personalization_score := avg_personalization,
                                       response_rate := avg_response_rate\<rparr>) st1;
                              (t, st3) = utcnow c st2;
                              execution_time = t - start_time;
                              st4 = upd_metrics (\<lambda>m. m\<lparr>total_workflows_executed :=
                                       total_workflows_executed m + 1\<rparr>) st3;
                              (t_last, st5) = utcnow c st4;
                              st6 = upd_metrics (\<lambda>m. m\<lparr>last_execution := Some t_last\<rparr>) st5
                          in (FullOutreachResult
                                \<lparr>cs_leads_found = int (length leads),
                                 cs_messages_generated = int (length msgs),
                                 cs_avg_personalization_score = py_round2 avg_personalization,
                                 cs_avg_response_rate = py_round2 avg_response_rate,
                                 cs_estimated_responses =
                                   py_round (real (length msgs) * avg_response_rate),
                                 cs_campaign_size = get_or 25 (cfg_campaign_size cfg)\<rparr>
                                (take 5 msgs) execution_time (metrics st6), st6))))
         | _ \<Rightarrow> (Failure ''Real agents not available'' (Some ''full_outreach'') None, st0))"

subsection \<open>Nurturing, scheduling, reporting\<close>

text \<open>
  Each of the three wraps its stage in a dictionary with \<open>success: True\<close>. The stage
  methods catch every exception themselves, so the handlers of these wrappers are never
  entered: a stage that failed shows as the failure dictionary inside the result.
\<close>

definition leads_to_nurture :: "SalesDepartment \<Rightarrow> config \<Rightarrow> ref list" where
  "leads_to_nurture st task =
     (let lead_ids = get_or (map fst (leads_database st)) (cfg_lead_ids task)
      in concat (map (\<lambda>lid. case dict_get (leads_database st) lid of
                               None \<Rightarrow> [] | Some r \<Rightarrow> [r]) lead_ids))"

definition execute_lead_nurturing_workflow ::
  "collab \<Rightarrow> config \<Rightarrow> SalesDepartment \<Rightarrow> envelope \<times> SalesDepartment" where
  "execute_lead_nurturing_workflow c task st =
     (let (results, st1) = nurture_prospects c (leads_to_nurture st task) st
      in (LeadNurturingResult results, st1))"

definition default_prospects_data :: "SalesDepartment \<Rightarrow> prospect_data list" where
  "default_prospects_data st =
     map (\<lambda>kv. \<lparr>pd_prospect_id = Some (fst kv), pd_meeting_type = Some ''discovery_call'',
                 pd_preferred_times = None\<rparr>)
       (filter (\<lambda>kv. \<not> meeting_scheduled (snd kv)) (prospects_pipeline st))"

definition execute_meeting_scheduling_workflow ::
  "collab \<Rightarrow> config \<Rightarrow> SalesDepartment \<Rightarrow> envelope \<times> SalesDepartment" where
  "execute_meeting_scheduling_workflow c task st =
     (let prospects_data = get_or [] (cfg_prospects task);
          prospects_data = (if prospects_data = [] then default_prospects_data st
                            else prospects_data);
          (results, st1) = schedule_meetings c prospects_data st
      in (MeetingSchedulingResult results, st1))"

definition execute_pipeline_reporting_workflow ::
  "collab \<Rightarrow> config \<Rightarrow> SalesDepartment \<Rightarrow> envelope \<times> SalesDepartment" where
  "execute_pipeline_reporting_workflow c task st =
     (let (rep, st1) = report_pipeline_status c st in (PipelineReportingResult rep, st1))"

subsection \<open>Full pipeline and dispatch\<close>

definition execute_full_pipeline_workflow ::
  "collab \<Rightarrow> config \<Rightarrow> SalesDepartment \<Rightarrow> envelope \<times> SalesDepartment" where
  "execute_full_pipeline_workflow c task st =
     (let lead_gen_task = config_empty\<lparr>cfg_criteria :=
                            Some (get_or criteria_empty (cfg_lead_criteria task))\<rparr>;
          (lead_gen_result, st1) = execute_lead_generation_workflow c lead_gen_task st;
          nurture_task = config_empty\<lparr>cfg_lead_ids := Some []\<rparr>;
          (nurture_result, st2) = execute_lead_nurturing_workflow c nurture_task st1;
          meeting_task = config_empty\<lparr>cfg_prospects := Some []\<rparr>;
          (meeting_result, st3) = execute_meeting_scheduling_workflow c meeting_task st2;
          (report_result, st4) = execute_pipeline_reporting_workflow c config_empty st3
      in (FullPipelineResult
            [''lead_generation'', ''lead_nurturing'', ''meeting_scheduling'',
             ''pipeline_reporting'']
            lead_gen_result nurture_result meeting_result report_result, st4))"

definition execute_mock_workflow ::
  "config \<Rightarrow> SalesDepartment \<Rightarrow> envelope \<times> SalesDepartment" where
  "execute_mock_workflow cfg st =
     (let wt = get_or ''unknown'' (workflow_type cfg)
      in (MockFailure (''Mock workflow not implemented for '' @ wt) wt, st))"

text \<open>\<open>execute_workflow\<close>. No executor raises, so the handler that falls back to
  \<open>execute_workflow_safe\<close> is never entered.\<close>

definition execute_workflow ::
  "collab \<Rightarrow> config \<Rightarrow> SalesDepartment \<Rightarrow> envelope \<times> SalesDepartment" where
  "execute_workflow c cfg st =
     (let wt = get_or ''lead_generation'' (workflow_type cfg)
      in if wt = ''lead_generation'' then execute_lead_generation_workflow c cfg st
         else if wt = ''quick_wins'' then execute_quick_wins_workflow c cfg st
         else if wt = ''full_outreach'' then execute_full_outreach_workflow c cfg st
         else if wt = ''lead_nurturing'' then execute_lead_nurturing_workflow c cfg st
         else if wt = ''meeting_scheduling'' then execute_meeting_scheduling_workflow c cfg st
         else if wt = ''pipeline_reporting'' then execute_pipeline_reporting_workflow c cfg st
         else if wt = ''full_pipeline'' then execute_full_pipeline_workflow c cfg st
         else execute_mock_workflow cfg st)"

subsection \<open>Metrics update\<close>

text \<open>\<open>update_metrics\<close>; the division is by a positive count, under the guard of the
  source.\<close>

definition update_metrics ::
  "collab \<Rightarrow> string \<Rightarrow> envelope \<Rightarrow> SalesDepartment \<Rightarrow> SalesDepartment" where
  "update_metrics c wt results st =
     (let st1 = upd_metrics (\<lambda>m. m\<lparr>total_workflows_executed :=
                   total_workflows_executed m + 1\<rparr>) st;
          (t, st2) = utcnow c st1;
          st3 = upd_metrics (\<lambda>m. m\<lparr>last_execution := Some t\<rparr>) st2;
          st4 =
            (if wt = ''lead_generation'' then
               upd_metrics (\<lambda>m. m\<lparr>leads_generated :=
                  leads_generated m + leads_found results\<rparr>) st3
             else if wt = ''quick_wins'' then
               upd_metrics (\<lambda>m. m\<lparr>leads_qualified := leads_qualified m + leads_found results,
                  messages_composed := messages_composed m + messages_generated results\<rparr>) st3
             else if wt = ''full_outreach'' then
               (let cs = get_campaign_summary results
                in upd_metrics (\<lambda>m. m\<lparr>
                     leads_qualified := leads_qualified m
                        + (case cs of None \<Rightarrow> 0 | Some s \<Rightarrow> cs_leads_found s),
                     messages_composed := messages_composed m
                        + (case cs of None \<Rightarrow> 0 | Some s \<Rightarrow> cs_messages_generated s),
                     personalization_score :=
                        (case cs of None \<Rightarrow> 0 | Some s \<Rightarrow> cs_avg_personalization_score s),
                     response_rate :=
                        (case cs of None \<Rightarrow> 0 | Some s \<Rightarrow> cs_avg_response_rate s)\<rparr>) st3)
             else st3)
      in if total_workflows_executed (metrics st4) > 0 then
           (let successful_workflows = (if success results then 1 else 0 :: int)
            in upd_metrics (\<lambda>m. m\<lparr>success_rate :=
                 real_of_int successful_workflows
                   / real_of_int (total_workflows_executed m)\<rparr>) st4)
         else st4)"

section \<open>Notions used to state the properties of the nurture stage\<close>

text \<open>
  A lead meets the qualification threshold when its score is above 7 and it has been
  contacted at least twice; \<open>after_contact\<close> is the state the contact step of the loop
  leaves, with the helpers of the class. A prospect is fresh when it is as
  \<open>_qualify_lead\<close> builds it. \<open>nurture_calls\<close> is a sequence of calls of
  \<open>nurture_prospects\<close>, one per batch.
\<close>

definition meets_threshold :: "SalesDepartment \<Rightarrow> ref \<Rightarrow> bool" where
  "meets_threshold st r = (score (get_lead st r) > 7 \<and> contact_attempts (get_lead st r) \<ge> 2)"

definition after_contact :: "collab \<Rightarrow> ref \<Rightarrow> SalesDepartment \<Rightarrow> SalesDepartment" where
  "after_contact c r st =
     snd (snd (contact_step send_outreach_email c r (nurturing_results_init, st)))"

definition gets_email :: "Lead \<Rightarrow> bool" where
  "gets_email l = (status l = ''new'' \<or> (status l = ''contacted'' \<and> contact_attempts l < 3))"

definition fresh_prospect :: "Prospect \<Rightarrow> bool" where
  "fresh_prospect p = (\<not> meeting_scheduled p \<and> next_action p = ''schedule_meeting'')"

fun nurture_calls :: "collab \<Rightarrow> ref list list \<Rightarrow> SalesDepartment \<Rightarrow> SalesDepartment" where
  "nurture_calls c [] st = st"
| "nurture_calls c (leads # batches) st = nurture_calls c batches (snd (nurture_prospects c leads st))"

abbreviation own_item where
  "own_item \<equiv> nurture_item send_outreach_email qualify_lead"
abbreviation own_loop where
  "own_loop \<equiv> nurture_loop send_outreach_email qualify_lead"

definition settled :: "ref \<Rightarrow> string \<Rightarrow> SalesDepartment \<Rightarrow> bool" where
  "settled r lid st =
     (distinct (map fst (prospects_pipeline st)) \<and> lead_id (get_lead st r) = lid
      \<and> lid \<in> fst ` set (prospects_pipeline st)
      \<and> status (get_lead st r) = ''qualified'' \<and> meets_threshold st r)"


section \<open>Notions used to state the properties of the scheduling stage\<close>

text \<open>
  \<open>booked_meeting c t pd\<close> is the meeting dictionary the loop builds for the entry
  \<open>pd\<close> when the clock has been read \<open>t\<close> times: the slot finder takes reading \<open>t\<close>,
  the id and \<open>created_at\<close> the next two. A prospect id is attending when its Prospect
  has \<open>meeting_scheduled = True\<close> and \<open>next_action = "attend_meeting"\<close>; an entry is
  unscheduled when its prospect is in the table with \<open>meeting_scheduled = False\<close>.
\<close>

definition booked_meeting :: "collab \<Rightarrow> nat \<Rightarrow> prospect_data \<Rightarrow> meeting" where
  "booked_meeting c t pd =
     \<lparr>m_id = ''meeting_'' @ string_of_int (py_int (clock c (Suc t))),
      m_prospect_id = pd_prospect_id pd,
      m_type = get_or ''discovery_call'' (pd_meeting_type pd),
      m_scheduled_time = clock c t + timedelta_days 3, m_duration = 30,
      m_status = ''confirmed'', m_created_at = clock c (Suc (Suc t))\<rparr>"

definition attending :: "SalesDepartment \<Rightarrow> string \<Rightarrow> bool" where
  "attending st pid =
     (case dict_get (prospects_pipeline st) pid of
        None \<Rightarrow> False
      | Some p \<Rightarrow> meeting_scheduled p \<and> next_action p = ''attend_meeting'')"

definition unscheduled_entry :: "SalesDepartment \<Rightarrow> prospect_data \<Rightarrow> bool" where
  "unscheduled_entry st pd =
     (case pd_prospect_id pd of
        None \<Rightarrow> False
      | Some pid \<Rightarrow>
          (case dict_get (prospects_pipeline st) pid of
             None \<Rightarrow> False
           | Some p \<Rightarrow> \<not> meeting_scheduled p))"

definition entry_attending :: "SalesDepartment \<Rightarrow> prospect_data \<Rightarrow> bool" where
  "entry_attending st pd =
     (case pd_prospect_id pd of None \<Rightarrow> False | Some pid \<Rightarrow> attending st pid)"

section \<open>Notions used to state the properties of the metrics\<close>

text \<open>A sequence of lead generation workflows, with the durations they report.\<close>

fun lead_generation_runs ::
  "collab \<Rightarrow> config list \<Rightarrow> SalesDepartment \<Rightarrow> real list \<times> SalesDepartment" where
  "lead_generation_runs c [] st = ([], st)"
| "lead_generation_runs c (cfg # cfgs) st =
     (let (r, st1) = execute_lead_generation_workflow c cfg st;
          (ds, st2) = lead_generation_runs c cfgs st1
      in (case execution_time_of r of None \<Rightarrow> ds | Some d \<Rightarrow> d # ds, st2))"

section \<open>Initial state and test doubles\<close>

text \<open>\<open>__init__\<close>: fresh metrics and empty tables. No Lead object exists yet; the
  store of objects is filled with a blank one.\<close>

definition blank_lead :: Lead where
  "blank_lead =
     \<lparr>lead_id = [], name = [], email = [], company = [], title = [], source = [],
      score = 0, created_at = 0, status = ''new'', contact_attempts = 0,
      last_contacted = None, lead_notes = []\<rparr>"

definition SalesDepartment_init :: SalesDepartment where
  "SalesDepartment_init =
     \<lparr>metrics = DepartmentMetrics_init, lead_objects = (\<lambda>r. blank_lead), next_ref = 0,
      leads_database = [], prospects_pipeline = [], meetings_scheduled = [], ticks = 0\<rparr>"

text \<open>A department whose real agents could not be imported, with a clock that advances
  one second per reading and a store that always saves.\<close>

definition collab_mock :: collab where
  "collab_mock =
     \<lparr>clock = (\<lambda>k. real k), lead_scanner = None, outreach_composer = None,
      tone_style = (\<lambda>s. Inr s), save_state = (\<lambda>st. None)\<rparr>"

text \<open>A department with two leads: one scored 9 and contacted once, one scored 5 and
  new; and the same department later, the first lead qualified and its meeting booked.\<close>

definition hot_lead :: Lead where
  "hot_lead = blank_lead\<lparr>lead_id := ''lead_7'', score := 9, status := ''contacted'',
                contact_attempts := 1\<rparr>"

definition cold_lead :: Lead where
  "cold_lead = blank_lead\<lparr>lead_id := ''lead_8'', score := 5\<rparr>"

definition two_lead_department :: SalesDepartment where
  "two_lead_department =
     SalesDepartment_init\<lparr>lead_objects := (\<lambda>r. if r = 0 then hot_lead else cold_lead),
       next_ref := 2, leads_database := [(''lead_7'', 0), (''lead_8'', 1)]\<rparr>"

definition booked_prospect :: Prospect where
  "booked_prospect =
     \<lparr>lead = 0, qualification_score = 9, pain_points = [''automation'', ''efficiency''],
      budget_range = Some ''10k-50k'', timeline = Some ''Q1'', decision_maker = True,
      next_action = ''attend_meeting'', meeting_scheduled = True\<rparr>"

definition booked_department :: SalesDepartment where
  "booked_department =
     two_lead_department\<lparr>
       lead_objects := (\<lambda>r. if r = 0 then hot_lead\<lparr>status := ''qualified'', contact_attempts := 2\<rparr>
                             else cold_lead),
       prospects_pipeline := [(''lead_7'', booked_prospect)]\<rparr>"




text \<open>A department with two qualified prospects, none with a meeting.\<close>

definition two_prospect_department :: SalesDepartment where
  "two_prospect_department =
     SalesDepartment_init\<lparr>
       lead_objects := (\<lambda>r. blank_lead\<lparr>score := 9, status := ''qualified'', contact_attempts := 2\<rparr>),
       next_ref := 2,
       leads_database := [(''lead_1'', 0), (''lead_2'', 1)],
       prospects_pipeline :=
         [(''lead_1'', \<lparr>lead = 0, qualification_score = 9, pain_points = [],
                        budget_range = None, timeline = None, decision_maker = True,
                        next_action = ''schedule_meeting'', meeting_scheduled = False\<rparr>),
          (''lead_2'', \<lparr>lead = 1, qualification_score = 9, pain_points = [],
                        budget_range = None, timeline = None, decision_maker = True,
                        next_action = ''schedule_meeting'', meeting_scheduled = False\<rparr>)]\<rparr>"

text \<open>A department with both agents, whose scanner finds one lead and whose clock makes
  the first workflow last 2 seconds and the second 4; and a department whose scanner and
  store both fail.\<close>

definition scanned_example :: ScannedLead where
  "scanned_example =
     \<lparr>sl_lead_id = ''s1'', sl_contact_full_name = ''Ada Low'', sl_company_name = ''Acme'',
      sl_outreach_priority = ''high''\<rparr>"

definition message_example :: OutreachMessage where
  "message_example =
     \<lparr>om_subject = ''Hello'', om_body = ''Hi Ada'', om_personalization_score = 1 / 2,
      om_predicted_response_rate = 1 / 4, om_ab_variants = 0\<rparr>"

definition collab_real :: collab where
  "collab_real =
     \<lparr>clock = (\<lambda>k. if k = 0 then 0 else if k \<le> 2 then 2 else if k = 3 then 10 else 14),
      lead_scanner = Some (\<lambda>cr. Inr [scanned_example]),
      outreach_composer = Some (\<lambda>l oc. Inr message_example),
      tone_style = (\<lambda>s. Inr s), save_state = (\<lambda>st. None)\<rparr>"

definition collab_down :: collab where
  "collab_down =
     \<lparr>clock = (\<lambda>k. real k), lead_scanner = Some (\<lambda>cr. Inl ''scanner unavailable''),
      outreach_composer = None, tone_style = (\<lambda>s. Inr s),
      save_state = (\<lambda>st. Some ''store unavailable'')\<rparr>"

section \<open>Properties of the scoring\<close>

lemma keyword_loop_any:
  "keyword_loop ks txt bonus s0 =
     s0 + (if list_ex (\<lambda>k. contains k txt) ks then bonus else 0)"
  by (induction ks) auto

lemma size_loop_cases:
  "size_loop company_size_bonus txt s0 =
     s0 + (if contains ''startup'' txt then 5
           else if contains ''enterprise'' txt then 10
           else if contains ''mid-market'' txt then 8 else 0)"
  by (simp add: company_size_bonus_def)

text \<open>
  Claim C7. The lead score is a function of the three attribute strings alone, lies
  between 0 and 10, and equals the reference computation of the specification: base 5,
  plus 2 for a title keyword, plus the size bonus, plus 3 for an industry match, capped
  at 10. The order in which the size tokens are tried differs between the code and the
  reference, and the cap hides the difference.
\<close>

theorem calculate_lead_score_reference:
  "calculate_lead_score d = spec_score d
   \<and> 0 \<le> calculate_lead_score d \<and> calculate_lead_score d \<le> 10"
  by (simp add: calculate_lead_score_def spec_score_def spec_size_bonus_def
      keyword_loop_any size_loop_cases Let_def min_def)

section \<open>Properties of the report\<close>

lemma conversion_rates_zero: "conversion_rates 0 b d = Inr (0, 0)"
  by (simp add: conversion_rates_def)

lemma conversion_rates_total: "\<exists>p m. conversion_rates a b d = Inr (p, m)"
  by (auto simp: conversion_rates_def py_truediv_def)

text \<open>
  Claim C9. With no lead in the store, the status report is produced (the method does
  not leave through its handler) and both conversion ratios, lead to prospect and lead
  to meeting, are exactly 0.
\<close>

theorem report_empty_store_rates:
  assumes "leads_database st = []"
  shows "\<exists>r. fst (report_pipeline_status c st) = Report r
             \<and> lead_to_prospect_conversion r = 0 \<and> lead_to_meeting_conversion r = 0"
  using assms
  by (simp add: report_pipeline_status_def conversion_rates_zero Let_def split: prod.splits)

theorem report_empty_store_rates_witness:
  "leads_database SalesDepartment_init = []
   \<and> (\<exists>r. fst (report_pipeline_status collab_mock SalesDepartment_init) = Report r
             \<and> lead_to_prospect_conversion r = 0 \<and> lead_to_meeting_conversion r = 0)"
  using report_empty_store_rates [of SalesDepartment_init collab_mock]
  by (simp add: SalesDepartment_init_def)

section \<open>Properties of the metrics\<close>

text \<open>
  What \<open>update_metrics\<close> does when it is called, for every workflow type and every
  result, successful or failed: it increments \<open>total_workflows_executed\<close> by exactly 1,
  sets \<open>last_execution\<close> to the reading of the clock and, the new count being positive,
  sets \<open>success_rate\<close> to the success indicator of that one result divided by the new
  count.
\<close>

lemma update_metrics_counts:
  "total_workflows_executed (metrics (update_metrics c wt results st))
     = total_workflows_executed (metrics st) + 1
   \<and> last_execution (metrics (update_metrics c wt results st)) = Some (clock c (ticks st))
   \<and> success_rate (metrics (update_metrics c wt results st))
     = (if total_workflows_executed (metrics st) + 1 > 0
        then (if success results then 1 else 0)
               / real_of_int (total_workflows_executed (metrics st) + 1)
        else success_rate (metrics st))"
  by (simp add: update_metrics_def upd_metrics_def utcnow_def Let_def)

text \<open>
  Claim C2 against the code. The claim is that every completed workflow other than the
  full pipeline, successful or failed, adds exactly 1 to \<open>total_workflows_executed\<close>,
  sets \<open>last_execution\<close> and recomputes \<open>success_rate\<close>. On a fresh department:
  a lead nurturing workflow completes and leaves the count at 0 and \<open>last_execution\<close>
  unset; a lead generation workflow whose scanner raises completes with
  \<open>success: False\<close> and leaves the count at 0; and when \<open>update_metrics\<close> is called
  after a successful lead generation workflow, which has counted itself, the count
  is 2. No executor calls \<open>update_metrics\<close>; three of them count themselves, on
  success only, and the other three never do.
\<close>

theorem nurturing_workflow_skips_metrics:
  "total_workflows_executed (metrics (snd (execute_workflow collab_mock
       (config_empty\<lparr>workflow_type := Some ''lead_nurturing''\<rparr>) SalesDepartment_init)))
   \<noteq> total_workflows_executed (metrics SalesDepartment_init) + 1
   \<and> last_execution (metrics (snd (execute_workflow collab_mock
         (config_empty\<lparr>workflow_type := Some ''lead_nurturing''\<rparr>) SalesDepartment_init)))
       = None
   \<and> \<not> success (fst (execute_workflow collab_down
           (config_empty\<lparr>workflow_type := Some ''lead_generation''\<rparr>) SalesDepartment_init))
   \<and> total_workflows_executed (metrics (snd (execute_workflow collab_down
         (config_empty\<lparr>workflow_type := Some ''lead_generation''\<rparr>) SalesDepartment_init)))
       \<noteq> total_workflows_executed (metrics SalesDepartment_init) + 1
   \<and> total_workflows_executed (metrics
         (update_metrics collab_real ''lead_generation''
           (fst (execute_workflow collab_real
                  (config_empty\<lparr>workflow_type := Some ''lead_generation''\<rparr>)
                  SalesDepartment_init))
           (snd (execute_workflow collab_real
                  (config_empty\<lparr>workflow_type := Some ''lead_generation''\<rparr>)
                  SalesDepartment_init))))
       \<noteq> total_workflows_executed (metrics SalesDepartment_init) + 1"
proof -
  have a: "metrics (snd (execute_workflow collab_mock
       (config_empty\<lparr>workflow_type := Some ''lead_nurturing''\<rparr>) SalesDepartment_init))
       = DepartmentMetrics_init"
    by (simp add: execute_workflow_def execute_lead_nurturing_workflow_def config_empty_def
        get_or_def leads_to_nurture_def nurture_prospects_def nurture_prospects_with_def
        SalesDepartment_init_def collab_mock_def)
  have b: "execute_workflow collab_down
           (config_empty\<lparr>workflow_type := Some ''lead_generation''\<rparr>) SalesDepartment_init
       = (Failure ''scanner unavailable'' (Some ''lead_generation'') (Some 1),
          SalesDepartment_init\<lparr>ticks := 2\<rparr>)"
    by (simp add: execute_workflow_def execute_lead_generation_workflow_def utcnow_def
        get_or_def config_empty_def collab_down_def SalesDepartment_init_def Let_def)
  have d: "total_workflows_executed (metrics
         (update_metrics collab_real ''lead_generation''
           (fst (execute_workflow collab_real
                  (config_empty\<lparr>workflow_type := Some ''lead_generation''\<rparr>)
                  SalesDepartment_init))
           (snd (execute_workflow collab_real
                  (config_empty\<lparr>workflow_type := Some ''lead_generation''\<rparr>)
                  SalesDepartment_init)))) = 2"
    by (simp add: execute_workflow_def execute_lead_generation_workflow_def update_metrics_def
        update_average_def upd_metrics_def utcnow_def get_or_def config_empty_def Let_def
        collab_real_def SalesDepartment_init_def DepartmentMetrics_init_def)
  show ?thesis
    unfolding a b d by (simp add: SalesDepartment_init_def DepartmentMetrics_init_def)
qed

section \<open>Properties of the nurture stage\<close>

lemmas own_defs = nurture_item_def contact_step_def qualify_step_def send_outreach_email_def
      qualify_lead_def mark_contacted_def utcnow_def upd_lead_def get_lead_def Let_def
      nurture_except_def

lemmas fixture_defs = two_lead_department_def SalesDepartment_init_def hot_lead_def cold_lead_def
  blank_lead_def collab_mock_def DepartmentMetrics_init_def nurturing_results_init_def
  booked_department_def booked_prospect_def

subsection \<open>Dictionaries\<close>

lemma dict_set_keys:
  "map fst (dict_set k v d) = (if k \<in> fst ` set d then map fst d else map fst d @ [k])"
  by (induction d) (auto simp: rev_image_eqI)

lemma dict_set_distinct: "distinct (map fst d) \<Longrightarrow> distinct (map fst (dict_set k v d))"
  by (simp add: dict_set_keys)

lemma dict_get_set: "dict_get (dict_set k v d) k' = (if k' = k then Some v else dict_get d k')"
  by (induction d) auto

lemma dict_get_keys: "dict_get d k \<noteq> None \<longleftrightarrow> k \<in> fst ` set d"
  by (induction d) auto

lemma dict_set_key_set: "fst ` set (dict_set k v d) = insert k (fst ` set d)"
  using arg_cong [OF dict_set_keys [of k v d], of set] by auto

lemma count_key_distinct:
  "distinct (map fst d) \<Longrightarrow> count_key k d = (if k \<in> fst ` set d then 1 else 0)"
  by (induction d) (auto simp: count_key_def rev_image_eqI)

lemma dict_set_length: "dict_get d k = Some y \<Longrightarrow> length (dict_set k v d) = length d"
  by (induction d) (auto split: if_splits)

subsection \<open>One lead, with the helpers of the class\<close>

lemma meets_after_contact:
  "meets_threshold (after_contact c r st) r \<longleftrightarrow>
     score (get_lead st r) > 7
     \<and> (if gets_email (get_lead st r) then contact_attempts (get_lead st r) + 1
         else contact_attempts (get_lead st r)) \<ge> 2"
  by (simp add: own_defs after_contact_def meets_threshold_def gets_email_def)

lemma own_item_res_indep:
  "snd (own_item c r (res, st)) = snd (own_item c r (res2, st))"
  by (simp add: own_defs)

lemma own_item_pipeline:
  "prospects_pipeline (snd (own_item c r (res, st))) =
     (if meets_threshold (after_contact c r st) r
      then dict_set (lead_id (get_lead st r))
             \<lparr>lead = r, qualification_score = score (get_lead st r),
              pain_points = [''automation'', ''efficiency''],
              budget_range = Some ''10k-50k'', timeline = Some ''Q1'',
              decision_maker = (score (get_lead st r) \<ge> 8),
              next_action = ''schedule_meeting'', meeting_scheduled = False\<rparr>
             (prospects_pipeline st)
      else prospects_pipeline st)"
  unfolding meets_after_contact
  by (simp add: own_defs gets_email_def)

lemma own_item_same:
  "lead_id (get_lead (snd (own_item c r (res, st))) r') = lead_id (get_lead st r')
   \<and> score (get_lead (snd (own_item c r (res, st))) r') = score (get_lead st r')
   \<and> contact_attempts (get_lead st r') \<le> contact_attempts (get_lead (snd (own_item c r (res, st))) r')"
  by (simp add: own_defs)

lemma own_item_status:
  "meets_threshold (after_contact c r st) r \<Longrightarrow>
     status (get_lead (snd (own_item c r (res, st))) r) = ''qualified''
     \<and> meets_threshold (snd (own_item c r (res, st))) r"
  unfolding meets_after_contact
  by (auto simp: own_defs gets_email_def meets_threshold_def split: if_splits)

lemma own_item_qualified_stable:
  "status (get_lead st r') = ''qualified'' \<Longrightarrow> meets_threshold st r' \<Longrightarrow>
     status (get_lead (snd (own_item c r (res, st))) r') = ''qualified''
     \<and> meets_threshold (snd (own_item c r (res, st))) r'"
  by (auto simp: own_defs meets_threshold_def)

lemma own_item_counts:
  "errors (fst (own_item c r (res, st))) = errors res
   \<and> leads_contacted (fst (own_item c r (res, st))) = leads_contacted res + 1"
  by (simp add: own_defs)

lemma own_item_meets_mono:
  "meets_threshold st r' \<Longrightarrow> meets_threshold (snd (own_item c r (res, st))) r'"
  using own_item_same [of c r res st r'] by (simp add: meets_threshold_def)

lemma meets_before_after:
  "meets_threshold st r \<Longrightarrow> meets_threshold (after_contact c r st) r"
  unfolding meets_after_contact by (simp add: meets_threshold_def)

subsection \<open>What one lead does to the prospect table\<close>

lemma own_item_distinct:
  "distinct (map fst (prospects_pipeline st)) \<Longrightarrow>
     distinct (map fst (prospects_pipeline (snd (own_item c r (res, st)))))"
  by (simp add: own_item_pipeline dict_set_distinct)

lemma own_item_keys_mono:
  "k \<in> fst ` set (prospects_pipeline st) \<Longrightarrow>
     k \<in> fst ` set (prospects_pipeline (snd (own_item c r (res, st))))"
  by (simp add: own_item_pipeline dict_set_key_set)

lemma own_item_key_added:
  "meets_threshold (after_contact c r st) r \<Longrightarrow>
     lead_id (get_lead st r) \<in> fst ` set (prospects_pipeline (snd (own_item c r (res, st))))"
  by (simp add: own_item_pipeline dict_set_key_set)

lemma own_item_fresh_kept:
  assumes "\<exists>p. dict_get (prospects_pipeline st) k = Some p \<and> fresh_prospect p"
  shows "\<exists>p. dict_get (prospects_pipeline (snd (own_item c r (res, st)))) k = Some p
              \<and> fresh_prospect p"
  using assms by (auto simp: own_item_pipeline dict_get_set fresh_prospect_def)

lemma own_item_fresh_made:
  assumes "meets_threshold (after_contact c r st) r"
  shows "\<exists>p. dict_get (prospects_pipeline (snd (own_item c r (res, st))))
                (lead_id (get_lead st r)) = Some p \<and> fresh_prospect p"
  using assms by (simp add: own_item_pipeline dict_get_set fresh_prospect_def)

subsection \<open>The loop\<close>

lemma nurture_loop_append:
  "nurture_loop send qualify c (xs @ ys) rs =
     nurture_loop send qualify c ys (nurture_loop send qualify c xs rs)"
  by (induction xs arbitrary: rs) auto

lemma own_loop_res_indep:
  "snd (own_loop c xs (res, st)) = snd (own_loop c xs (res2, st))"
proof (induction xs arbitrary: res res2 st)
  case Nil
  show ?case by simp
next
  case (Cons x xs)
  obtain ra sa where a: "own_item c x (res, st) = (ra, sa)" by (cases "own_item c x (res, st)")
  obtain rb sb where b: "own_item c x (res2, st) = (rb, sb)" by (cases "own_item c x (res2, st)")
  have "sa = sb" using own_item_res_indep [of c x res st res2] a b by simp
  with a b Cons.IH [of ra sa rb] show ?case by simp
qed

lemma own_loop_invariant:
  assumes step: "\<And>r res st. P st \<Longrightarrow> P (snd (own_item c r (res, st)))"
    and "P st"
  shows "P (snd (own_loop c xs (res, st)))"
  using assms(2)
proof (induction xs arbitrary: res st)
  case Nil
  then show ?case by simp
next
  case (Cons x xs)
  obtain ra sa where a: "own_item c x (res, st) = (ra, sa)" by (cases "own_item c x (res, st)")
  have "P sa" using step [OF Cons.prems, of x res] a by simp
  from Cons.IH [OF this, of ra] a show ?case by simp
qed

lemma nurture_prospects_state:
  "snd (nurture_prospects c leads st) = snd (own_loop c leads (nurturing_results_init, st))"
  by (simp add: nurture_prospects_def nurture_prospects_with_def split: prod.splits option.splits)

lemma own_loop_split:
  "snd (own_loop c (xs @ r # ys) (res, st)) =
     snd (own_loop c ys (res2, snd (own_item c r (res3, snd (own_loop c xs (res, st))))))"
proof -
  obtain ra sa where a: "own_loop c xs (res, st) = (ra, sa)" by (cases "own_loop c xs (res, st)")
  obtain rb sb where b: "own_item c r (ra, sa) = (rb, sb)" by (cases "own_item c r (ra, sa)")
  have "snd (own_loop c (xs @ r # ys) (res, st)) = snd (own_loop c ys (rb, sb))"
    by (simp add: nurture_loop_append a b)
  also have "\<dots> = snd (own_loop c ys (res2, sb))" by (rule own_loop_res_indep)
  also have "sb = snd (own_item c r (res3, sa))"
    using own_item_res_indep [of c r ra sa res3] b by simp
  finally show ?thesis using a by simp
qed

lemma own_loop_distinct:
  "distinct (map fst (prospects_pipeline st)) \<Longrightarrow>
     distinct (map fst (prospects_pipeline (snd (own_loop c xs (res, st)))))"
  by (rule own_loop_invariant [where P = "\<lambda>s. distinct (map fst (prospects_pipeline s))"])
     (simp_all add: own_item_distinct)

lemma own_item_settled: "settled r' lid st \<Longrightarrow> settled r' lid (snd (own_item c r (res, st)))"
  unfolding settled_def
  using own_item_distinct [of st c r res] own_item_same [of c r res st r']
    own_item_keys_mono [of lid st c r res] own_item_qualified_stable [of st r' c r res]
  by simp

text \<open>
  Claim C3. Take any batch handed to the nurture stage and any lead \<open>r\<close> of it, at any
  position (\<open>xs\<close> before it, \<open>ys\<close> after it). If, after the contact step of its turn,
  the score of \<open>r\<close> is above 7 and its contact attempts are at least 2, then at the end of
  the batch the prospect table holds exactly one entry for its lead id and its status is
  qualified. If not, its turn leaves the prospect table as it was: no Prospect is made.
\<close>

theorem nurture_qualification_threshold:
  assumes "distinct (map fst (prospects_pipeline st))"
  shows "let s0 = snd (nurture_prospects c xs st);
             s1 = after_contact c r s0;
             s2 = snd (nurture_prospects c (xs @ [r]) st);
             st' = snd (nurture_prospects c (xs @ r # ys) st)
         in (meets_threshold s1 r \<longrightarrow>
               count_key (lead_id (get_lead st' r)) (prospects_pipeline st') = 1
               \<and> status (get_lead st' r) = ''qualified'')
            \<and> (\<not> meets_threshold s1 r \<longrightarrow> prospects_pipeline s2 = prospects_pipeline s0)"
proof -
  define s0 where "s0 = snd (own_loop c xs (nurturing_results_init, st))"
  define s2 where "s2 = snd (own_item c r (nurturing_results_init, s0))"
  define st' where "st' = snd (own_loop c ys (nurturing_results_init, s2))"
  have e0: "snd (nurture_prospects c xs st) = s0"
    by (simp add: nurture_prospects_state s0_def)
  have e2: "snd (nurture_prospects c (xs @ [r]) st) = s2"
    using own_loop_split [of c xs r "[]" nurturing_results_init st nurturing_results_init
        nurturing_results_init]
    by (simp add: nurture_prospects_state s0_def s2_def)
  have e3: "snd (nurture_prospects c (xs @ r # ys) st) = st'"
    using own_loop_split [of c xs r ys nurturing_results_init st nurturing_results_init
        nurturing_results_init]
    by (simp add: nurture_prospects_state s0_def s2_def st'_def)
  have d0: "distinct (map fst (prospects_pipeline s0))"
    unfolding s0_def using assms by (rule own_loop_distinct)
  have neg: "prospects_pipeline s2 = prospects_pipeline s0"
    if "\<not> meets_threshold (after_contact c r s0) r"
    using that by (simp add: s2_def own_item_pipeline)
  have pos: "count_key (lead_id (get_lead st' r)) (prospects_pipeline st') = 1
             \<and> status (get_lead st' r) = ''qualified''"
    if m: "meets_threshold (after_contact c r s0) r"
  proof -
    have "settled r (lead_id (get_lead s0 r)) s2"
      unfolding settled_def s2_def
      using own_item_distinct [OF d0, of c r nurturing_results_init]
        own_item_same [of c r nurturing_results_init s0 r]
        own_item_key_added [OF m, of nurturing_results_init]
        own_item_status [OF m, of nurturing_results_init]
      by simp
    then have "settled r (lead_id (get_lead s0 r)) st'"
      unfolding st'_def
      by (rule own_loop_invariant [where P = "settled r (lead_id (get_lead s0 r))", rotated])
         (rule own_item_settled)
    then show ?thesis
      by (simp add: settled_def count_key_distinct)
  qed
  show ?thesis
    unfolding Let_def e0 e2 e3 using pos neg by blast
qed

theorem nurture_qualification_threshold_witness:
  "distinct (map fst (prospects_pipeline two_lead_department))
   \<and> meets_threshold (after_contact collab_mock 0
        (snd (nurture_prospects collab_mock [1] two_lead_department))) 0
   \<and> count_key ''lead_7'' (prospects_pipeline
        (snd (nurture_prospects collab_mock [1, 0, 1] two_lead_department))) = 1
   \<and> status (get_lead (snd (nurture_prospects collab_mock [1, 0, 1] two_lead_department)) 0)
       = ''qualified''
   \<and> \<not> meets_threshold (after_contact collab_mock 1
          (snd (nurture_prospects collab_mock [] two_lead_department))) 1
   \<and> prospects_pipeline (snd (nurture_prospects collab_mock [1] two_lead_department))
       = prospects_pipeline (snd (nurture_prospects collab_mock [] two_lead_department))"
  using nurture_qualification_threshold [of two_lead_department collab_mock "[1]" 0 "[1]"]
    nurture_qualification_threshold [of two_lead_department collab_mock "[]" 1 "[]"]
  by (simp add: meets_after_contact nurture_prospects_state own_defs fixture_defs
      gets_email_def count_key_def)

lemma nurture_calls_distinct:
  "distinct (map fst (prospects_pipeline st)) \<Longrightarrow>
     distinct (map fst (prospects_pipeline (nurture_calls c batches st)))"
proof (induction batches arbitrary: st)
  case Nil
  then show ?case by simp
next
  case (Cons b bs)
  have "distinct (map fst (prospects_pipeline (snd (nurture_prospects c b st))))"
    unfolding nurture_prospects_state using Cons.prems by (rule own_loop_distinct)
  from Cons.IH [OF this] show ?case by simp
qed

text \<open>
  Claim C4. After any sequence of nurture calls, whatever the batches and however often
  they name the same lead, the prospect table holds at most one entry per lead id; and
  nurturing a lead whose id already has an entry leaves the number of entries as it was:
  the entry is overwritten, none is added.
\<close>

theorem one_prospect_per_lead_id:
  assumes "distinct (map fst (prospects_pipeline st))"
  shows "(\<forall>lid. count_key lid (prospects_pipeline (nurture_calls c batches st)) \<le> 1)
         \<and> (dict_in (lead_id (get_lead st r)) (prospects_pipeline st) \<longrightarrow>
              length (prospects_pipeline (snd (nurture_prospects c [r] st)))
                = length (prospects_pipeline st))"
proof
  show "\<forall>lid. count_key lid (prospects_pipeline (nurture_calls c batches st)) \<le> 1"
    using nurture_calls_distinct [OF assms, of c batches] by (simp add: count_key_distinct)
  show "dict_in (lead_id (get_lead st r)) (prospects_pipeline st) \<longrightarrow>
          length (prospects_pipeline (snd (nurture_prospects c [r] st)))
            = length (prospects_pipeline st)"
    by (auto simp: nurture_prospects_state own_item_pipeline dict_set_length dict_in_def)
qed

theorem one_prospect_per_lead_id_witness:
  "distinct (map fst (prospects_pipeline booked_department))
   \<and> (\<forall>lid. count_key lid (prospects_pipeline
          (nurture_calls collab_mock [[0, 1], [0], [1, 0]] booked_department)) \<le> 1)
   \<and> dict_in (lead_id (get_lead booked_department 0)) (prospects_pipeline booked_department)
   \<and> length (prospects_pipeline (snd (nurture_prospects collab_mock [0] booked_department)))
       = length (prospects_pipeline booked_department)"
proof -
  have h: "distinct (map fst (prospects_pipeline booked_department))"
    by (simp add: fixture_defs)
  have d: "dict_in (lead_id (get_lead booked_department 0)) (prospects_pipeline booked_department)"
    by (simp add: fixture_defs dict_in_def get_lead_def)
  show ?thesis
    using h d one_prospect_per_lead_id [OF h, of collab_mock "[[0, 1], [0], [1, 0]]" 0]
    by blast
qed

lemma own_loop_fresh:
  "r \<in> set leads \<Longrightarrow> meets_threshold st r \<Longrightarrow>
     \<exists>p. dict_get (prospects_pipeline (snd (own_loop c leads (res, st))))
            (lead_id (get_lead st r)) = Some p \<and> fresh_prospect p"
proof (induction leads arbitrary: res st)
  case Nil
  then show ?case by simp
next
  case (Cons x xs)
  obtain ra sa where a: "own_item c x (res, st) = (ra, sa)" by (cases "own_item c x (res, st)")
  have sa: "sa = snd (own_item c x (res, st))" using a by simp
  show ?case
  proof (cases "x = r")
    case True
    have "\<exists>p. dict_get (prospects_pipeline sa) (lead_id (get_lead st r)) = Some p
               \<and> fresh_prospect p"
      unfolding sa True
      by (rule own_item_fresh_made) (rule meets_before_after [OF Cons.prems(2)])
    then have "\<exists>p. dict_get (prospects_pipeline (snd (own_loop c xs (ra, sa))))
                 (lead_id (get_lead st r)) = Some p \<and> fresh_prospect p"
      by (rule own_loop_invariant [where
            P = "\<lambda>s. \<exists>p. dict_get (prospects_pipeline s) (lead_id (get_lead st r)) = Some p
                          \<and> fresh_prospect p", rotated])
         (rule own_item_fresh_kept)
    then show ?thesis using a by simp
  next
    case False
    then have "r \<in> set xs" using Cons.prems(1) by simp
    moreover have "meets_threshold sa r"
      unfolding sa by (rule own_item_meets_mono [OF Cons.prems(2)])
    moreover have "lead_id (get_lead sa r) = lead_id (get_lead st r)"
      unfolding sa using own_item_same [of c x res st r] by simp
    ultimately show ?thesis using Cons.IH [of sa ra] a by simp
  qed
qed

text \<open>
  Claim C10. A lead with score above 7 and at least 2 contact attempts whose Prospect is
  recorded with \<open>meeting_scheduled = True\<close>: after a nurture call on a batch that
  contains it, the entry of its lead id is a new Prospect with
  \<open>meeting_scheduled = False\<close> and \<open>next_action = "schedule_meeting"\<close>; the
  scheduled state is lost.
\<close>

theorem renurture_resets_prospect:
  assumes "r \<in> set leads"
    and "meets_threshold st r"
    and "dict_get (prospects_pipeline st) (lead_id (get_lead st r)) = Some p"
    and "meeting_scheduled p"
  shows "\<exists>p'. dict_get (prospects_pipeline (snd (nurture_prospects c leads st)))
                 (lead_id (get_lead st r)) = Some p'
               \<and> \<not> meeting_scheduled p' \<and> next_action p' = ''schedule_meeting''"
  using own_loop_fresh [OF assms(1,2), of c nurturing_results_init]
  by (simp add: nurture_prospects_state fresh_prospect_def)

theorem renurture_resets_prospect_witness:
  "0 \<in> set [1, 0 :: ref]
   \<and> meets_threshold booked_department 0
   \<and> dict_get (prospects_pipeline booked_department) (lead_id (get_lead booked_department 0))
       = Some booked_prospect
   \<and> meeting_scheduled booked_prospect
   \<and> (\<exists>p'. dict_get (prospects_pipeline (snd (nurture_prospects collab_mock [1, 0] booked_department)))
               (lead_id (get_lead booked_department 0)) = Some p'
             \<and> \<not> meeting_scheduled p' \<and> next_action p' = ''schedule_meeting'')"
proof -
  have a: "0 \<in> set [1, 0 :: ref]" by simp
  have b: "meets_threshold booked_department 0"
    by (simp add: meets_threshold_def get_lead_def fixture_defs)
  have c: "dict_get (prospects_pipeline booked_department)
             (lead_id (get_lead booked_department 0)) = Some booked_prospect"
    by (simp add: get_lead_def fixture_defs)
  have d: "meeting_scheduled booked_prospect" by (simp add: booked_prospect_def)
  show ?thesis
    using a b c d renurture_resets_prospect [OF a b c d, of collab_mock] by blast
qed

subsection \<open>Failures of single leads, with any helpers\<close>









section \<open>Properties of the scheduling stage\<close>

lemma schedule_item_eq:
  "schedule_item c pd (res, st) =
     (res\<lparr>meetings_confirmed := meetings_confirmed res + 1,
          scheduled_meetings := scheduled_meetings res @ [booked_meeting c (ticks st) pd],
          meetings_requested := meetings_requested res + 1\<rparr>,
      mark_scheduled (pd_prospect_id pd)
        (st\<lparr>ticks := ticks st + 3,
            meetings_scheduled := meetings_scheduled st @ [booked_meeting c (ticks st) pd]\<rparr>))"
  by (simp add: schedule_item_def find_available_slot_def utcnow_def booked_meeting_def Let_def
      numeral_3_eq_3)

lemma mark_scheduled_other:
  "ticks (mark_scheduled x st) = ticks st
   \<and> meetings_scheduled (mark_scheduled x st) = meetings_scheduled st"
  by (simp add: mark_scheduled_def split: option.splits)

lemma mark_scheduled_present:
  "dict_get (prospects_pipeline st) pid \<noteq> None \<Longrightarrow>
     dict_get (prospects_pipeline (mark_scheduled x st)) pid \<noteq> None"
  by (auto simp: mark_scheduled_def dict_get_set split: option.splits)

lemma mark_scheduled_attending_kept:
  "attending st pid \<Longrightarrow> attending (mark_scheduled x st) pid"
  by (auto simp: attending_def mark_scheduled_def dict_get_set split: option.splits)

lemma mark_scheduled_attending_made:
  "dict_get (prospects_pipeline st) pid \<noteq> None \<Longrightarrow> attending (mark_scheduled (Some pid) st) pid"
  by (auto simp: attending_def mark_scheduled_def dict_get_set split: option.splits)

lemma schedule_item_present:
  "dict_get (prospects_pipeline st) pid \<noteq> None \<Longrightarrow>
     dict_get (prospects_pipeline (snd (schedule_item c pd (res, st)))) pid \<noteq> None"
  unfolding schedule_item_eq snd_conv
  by (rule mark_scheduled_present) simp

lemma schedule_item_attending_kept:
  "attending st pid \<Longrightarrow> attending (snd (schedule_item c pd (res, st))) pid"
  unfolding schedule_item_eq snd_conv
  by (rule mark_scheduled_attending_kept) (simp add: attending_def)

lemma schedule_item_attending_made:
  "pd_prospect_id pd = Some pid \<Longrightarrow> dict_get (prospects_pipeline st) pid \<noteq> None \<Longrightarrow>
     attending (snd (schedule_item c pd (res, st))) pid"
  unfolding schedule_item_eq snd_conv
  by simp (rule mark_scheduled_attending_made, simp)

lemma schedule_loop_attending_kept:
  "attending st pid \<Longrightarrow> attending (snd (schedule_loop c ps (res, st))) pid"
proof (induction ps arbitrary: res st)
  case Nil
  then show ?case by simp
next
  case (Cons pd ps)
  obtain ra sa where a: "schedule_item c pd (res, st) = (ra, sa)"
    by (cases "schedule_item c pd (res, st)")
  have "attending sa pid" using schedule_item_attending_kept [OF Cons.prems, of c pd res] a by simp
  from Cons.IH [OF this, of ra] a show ?case by simp
qed

lemma schedule_loop_attending:
  "pd \<in> set ps \<Longrightarrow> pd_prospect_id pd = Some pid \<Longrightarrow>
   dict_get (prospects_pipeline st) pid \<noteq> None \<Longrightarrow>
     attending (snd (schedule_loop c ps (res, st))) pid"
proof (induction ps arbitrary: res st)
  case Nil
  then show ?case by simp
next
  case (Cons x xs)
  obtain ra sa where a: "schedule_item c x (res, st) = (ra, sa)"
    by (cases "schedule_item c x (res, st)")
  show ?case
  proof (cases "x = pd")
    case True
    have "attending sa pid"
      using schedule_item_attending_made [OF Cons.prems(2,3), of c res] a True by simp
    from schedule_loop_attending_kept [OF this, of c xs ra] a show ?thesis by simp
  next
    case False
    then have "pd \<in> set xs" using Cons.prems(1) by simp
    moreover have "dict_get (prospects_pipeline sa) pid \<noteq> None"
      using schedule_item_present [OF Cons.prems(3), of c x res] a by simp
    ultimately show ?thesis using Cons.IH [OF _ Cons.prems(2), of sa ra] a by simp
  qed
qed

lemma schedule_loop_meetings:
  "schedule_loop c ps (res, st) = (res', st') \<Longrightarrow>
     \<exists>new. scheduled_meetings res' = scheduled_meetings res @ new
          \<and> meetings_scheduled st' = meetings_scheduled st @ new
          \<and> length new = length ps
          \<and> (\<forall>i<length ps. new ! i = booked_meeting c (ticks st + 3 * i) (ps ! i))
          \<and> meetings_confirmed res' = meetings_confirmed res + int (length ps)
          \<and> meetings_requested res' = meetings_requested res + int (length ps)
          \<and> calendar_conflicts res' = calendar_conflicts res
          \<and> sr_errors res' = sr_errors res"
proof (induction ps arbitrary: res st)
  case Nil
  then show ?case by simp
next
  case (Cons pd ps)
  define m where "m = booked_meeting c (ticks st) pd"
  define ra where "ra = res\<lparr>meetings_confirmed := meetings_confirmed res + 1,
          scheduled_meetings := scheduled_meetings res @ [m],
          meetings_requested := meetings_requested res + 1\<rparr>"
  define sa where "sa = mark_scheduled (pd_prospect_id pd)
        (st\<lparr>ticks := ticks st + 3, meetings_scheduled := meetings_scheduled st @ [m]\<rparr>)"
  have a: "schedule_item c pd (res, st) = (ra, sa)"
    by (simp add: schedule_item_eq ra_def sa_def m_def)
  have sa: "ticks sa = ticks st + 3" "meetings_scheduled sa = meetings_scheduled st @ [m]"
    by (simp_all add: sa_def mark_scheduled_other)
  from Cons.prems a have "schedule_loop c ps (ra, sa) = (res', st')" by simp
  from Cons.IH [OF this] obtain new where n:
    "scheduled_meetings res' = scheduled_meetings ra @ new"
    "meetings_scheduled st' = meetings_scheduled sa @ new"
    "length new = length ps"
    "\<forall>i<length ps. new ! i = booked_meeting c (ticks sa + 3 * i) (ps ! i)"
    "meetings_confirmed res' = meetings_confirmed ra + int (length ps)"
    "meetings_requested res' = meetings_requested ra + int (length ps)"
    "calendar_conflicts res' = calendar_conflicts ra"
    "sr_errors res' = sr_errors ra"
    by blast
  have idx: "(m # new) ! i = booked_meeting c (ticks st + 3 * i) ((pd # ps) ! i)"
    if "i < length (pd # ps)" for i
  proof (cases i)
    case 0
    then show ?thesis by (simp add: m_def)
  next
    case (Suc j)
    with that n(4) sa(1) show ?thesis by (simp add: add.assoc)
  qed
  show ?case
    apply (rule exI [of _ "m # new"])
    using n sa idx by (simp add: ra_def)
qed

text \<open>
  Claim C8. For a scheduling batch whose entries all name a prospect that is in the table
  with \<open>meeting_scheduled = False\<close>: every entry produces exactly one meeting, appended
  to the meetings of the department in the order of the batch; the meeting of entry \<open>i\<close>
  is confirmed, is for the prospect of that entry, and its scheduled time is exactly
  three days after the reading of the clock that the slot finder took for it; no conflict
  and no error is recorded; afterwards every such prospect has
  \<open>meeting_scheduled = True\<close> and \<open>next_action = "attend_meeting"\<close>. The instance that follows is
  a batch of 2: two confirmed meetings and both flags set.
\<close>

theorem schedule_batch_books_every_entry:
  assumes "list_all (unscheduled_entry st) prospects"
  shows "let (res, st') = schedule_loop c prospects (scheduling_results_init, st)
         in length (scheduled_meetings res) = length prospects
            \<and> meetings_scheduled st' = meetings_scheduled st @ scheduled_meetings res
            \<and> meetings_confirmed res = int (length prospects)
            \<and> calendar_conflicts res = 0 \<and> sr_errors res = []
            \<and> (\<forall>i<length prospects.
                  m_scheduled_time (scheduled_meetings res ! i)
                    = clock c (ticks st + 3 * i) + timedelta_days 3
                  \<and> m_prospect_id (scheduled_meetings res ! i) = pd_prospect_id (prospects ! i)
                  \<and> m_status (scheduled_meetings res ! i) = ''confirmed'')
            \<and> list_all (entry_attending st') prospects
            \<and> (save_state c st' = None \<longrightarrow>
                  schedule_meetings c prospects st = (Scheduled res, st'))"
proof -
  obtain res st' where a: "schedule_loop c prospects (scheduling_results_init, st) = (res, st')"
    by (cases "schedule_loop c prospects (scheduling_results_init, st)")
  from schedule_loop_meetings [OF a] obtain new where n:
    "scheduled_meetings res = new"
    "meetings_scheduled st' = meetings_scheduled st @ new"
    "length new = length prospects"
    "\<forall>i<length prospects. new ! i = booked_meeting c (ticks st + 3 * i) (prospects ! i)"
    "meetings_confirmed res = int (length prospects)"
    "calendar_conflicts res = 0"
    "sr_errors res = []"
    by (auto simp: scheduling_results_init_def)
  have att: "entry_attending st' pd" if "pd \<in> set prospects" for pd
  proof -
    from assms that have u: "unscheduled_entry st pd" by (simp add: list_all_iff)
    then obtain pid where pid: "pd_prospect_id pd = Some pid"
      by (auto simp: unscheduled_entry_def split: option.splits)
    with u have "dict_get (prospects_pipeline st) pid \<noteq> None"
      by (auto simp: unscheduled_entry_def split: option.splits)
    from schedule_loop_attending [OF that pid this, of c scheduling_results_init] a pid
    show ?thesis by (simp add: entry_attending_def)
  qed
  have ret: "schedule_meetings c prospects st = (Scheduled res, st')" if "save_state c st' = None"
    using that by (simp add: schedule_meetings_def a)
  show ?thesis
    unfolding a prod.case Let_def
    using n att ret by (simp add: list_all_iff booked_meeting_def)
qed

lemmas booking_defs = two_prospect_department_def SalesDepartment_init_def blank_lead_def
  collab_mock_def DepartmentMetrics_init_def scheduling_results_init_def

theorem schedule_batch_books_every_entry_witness:
  "list_all (unscheduled_entry two_prospect_department)
     (default_prospects_data two_prospect_department)
   \<and> length (default_prospects_data two_prospect_department) = 2
   \<and> (let (res, st') = schedule_loop collab_mock (default_prospects_data two_prospect_department)
                          (scheduling_results_init, two_prospect_department)
      in meetings_confirmed res = 2
         \<and> map m_scheduled_time (scheduled_meetings res) = [259200, 259203]
         \<and> map m_status (meetings_scheduled st') = [''confirmed'', ''confirmed'']
         \<and> map (\<lambda>kv. meeting_scheduled (snd kv)) (prospects_pipeline st') = [True, True]
         \<and> map (\<lambda>kv. next_action (snd kv)) (prospects_pipeline st')
             = [''attend_meeting'', ''attend_meeting'']
         \<and> schedule_meetings collab_mock (default_prospects_data two_prospect_department)
             two_prospect_department = (Scheduled res, st'))"
  using schedule_batch_books_every_entry [of two_prospect_department
      "default_prospects_data two_prospect_department" collab_mock]
  by (simp add: default_prospects_data_def unscheduled_entry_def schedule_item_eq
      booked_meeting_def mark_scheduled_def schedule_meetings_def timedelta_days_def
      get_or_def booking_defs)

section \<open>Properties of the full pipeline\<close>

lemma report_pipeline_status_runs:
  "\<exists>rep. report_pipeline_status c st = (Report rep, st\<lparr>ticks := ticks st + 4\<rparr>)
         \<and> total_leads rep = int (length (leads_database st))
         \<and> total_prospects rep = int (length (prospects_pipeline st))
         \<and> total_meetings rep = int (length (meetings_scheduled st))"
proof -
  obtain p m where pm: "conversion_rates (int (length (leads_database st)))
      (int (length (prospects_pipeline st))) (int (length (meetings_scheduled st))) = Inr (p, m)"
    using conversion_rates_total by blast
  show ?thesis
    by (simp add: report_pipeline_status_def pm get_recent_activity_def utcnow_def Let_def)
qed

lemma leads_to_nurture_pipeline:
  "leads_to_nurture st (config_empty\<lparr>cfg_lead_ids := Some []\<rparr>) = []"
  by (simp add: leads_to_nurture_def get_or_def config_empty_def)

text \<open>
  Claim C6. A full pipeline run, for every behaviour of the collaborators and every
  state: the lead generation stage runs; whatever its result, the nurture stage runs on
  the state it left; whatever that result, the scheduling stage runs on the state the
  nurture stage left; whatever that result, the reporting stage runs and reports on the
  state the scheduling stage left; the envelope lists the four stages as completed and
  holds the four results. In the instance that follows the scanner raises and the store fails: the
  first three stage results are failures, and the report still counts the two meetings
  that the scheduling stage booked.
\<close>

theorem full_pipeline_runs_all_stages:
  "\<exists>r1 st1 r2 st2 r3 st3 rep.
     execute_lead_generation_workflow c
        (config_empty\<lparr>cfg_criteria := Some (get_or criteria_empty (cfg_lead_criteria task))\<rparr>) st
       = (r1, st1)
     \<and> nurture_prospects c [] st1 = (r2, st2)
     \<and> schedule_meetings c (default_prospects_data st2) st2 = (r3, st3)
     \<and> report_pipeline_status c st3 = (Report rep, st3\<lparr>ticks := ticks st3 + 4\<rparr>)
     \<and> total_meetings rep = int (length (meetings_scheduled st3))
     \<and> execute_full_pipeline_workflow c task st
         = (FullPipelineResult
              [''lead_generation'', ''lead_nurturing'', ''meeting_scheduling'',
               ''pipeline_reporting'']
              r1 (LeadNurturingResult r2) (MeetingSchedulingResult r3)
              (PipelineReportingResult (Report rep)),
            st3\<lparr>ticks := ticks st3 + 4\<rparr>)"
proof -
  obtain r1 st1 where a: "execute_lead_generation_workflow c
        (config_empty\<lparr>cfg_criteria := Some (get_or criteria_empty (cfg_lead_criteria task))\<rparr>) st
       = (r1, st1)"
    by (cases "execute_lead_generation_workflow c
        (config_empty\<lparr>cfg_criteria := Some (get_or criteria_empty (cfg_lead_criteria task))\<rparr>) st")
  obtain r2 st2 where b: "nurture_prospects c [] st1 = (r2, st2)"
    by (cases "nurture_prospects c [] st1")
  obtain r3 st3 where d: "schedule_meetings c (default_prospects_data st2) st2 = (r3, st3)"
    by (cases "schedule_meetings c (default_prospects_data st2) st2")
  obtain rep where e: "report_pipeline_status c st3 = (Report rep, st3\<lparr>ticks := ticks st3 + 4\<rparr>)"
    "total_meetings rep = int (length (meetings_scheduled st3))"
    using report_pipeline_status_runs [of c st3] by blast
  have n: "execute_lead_nurturing_workflow c (config_empty\<lparr>cfg_lead_ids := Some []\<rparr>) st1
             = (LeadNurturingResult r2, st2)"
    by (simp add: execute_lead_nurturing_workflow_def leads_to_nurture_pipeline b)
  have m: "execute_meeting_scheduling_workflow c (config_empty\<lparr>cfg_prospects := Some []\<rparr>) st2
             = (MeetingSchedulingResult r3, st3)"
    by (simp add: execute_meeting_scheduling_workflow_def get_or_def config_empty_def d)
  have r: "execute_pipeline_reporting_workflow c config_empty st3
             = (PipelineReportingResult (Report rep), st3\<lparr>ticks := ticks st3 + 4\<rparr>)"
    by (simp add: execute_pipeline_reporting_workflow_def e)
  have "execute_full_pipeline_workflow c task st
         = (FullPipelineResult
              [''lead_generation'', ''lead_nurturing'', ''meeting_scheduling'',
               ''pipeline_reporting'']
              r1 (LeadNurturingResult r2) (MeetingSchedulingResult r3)
              (PipelineReportingResult (Report rep)),
            st3\<lparr>ticks := ticks st3 + 4\<rparr>)"
    by (simp add: execute_full_pipeline_workflow_def a n m r)
  with a b d e show ?thesis by blast
qed

lemmas down_defs = collab_down_def two_prospect_department_def SalesDepartment_init_def
  blank_lead_def DepartmentMetrics_init_def scheduling_results_init_def
  nurturing_results_init_def config_empty_def criteria_empty_def

theorem full_pipeline_runs_all_stages_witness:
  "\<exists>rep st'.
     execute_full_pipeline_workflow collab_down config_empty two_prospect_department
       = (FullPipelineResult
            [''lead_generation'', ''lead_nurturing'', ''meeting_scheduling'',
             ''pipeline_reporting'']
            (Failure ''scanner unavailable'' (Some ''lead_generation'') (Some 1))
            (LeadNurturingResult (NurtureFailed ''store unavailable''))
            (MeetingSchedulingResult (ScheduleFailed ''store unavailable''))
            (PipelineReportingResult (Report rep)), st')
     \<and> \<not> success (Failure ''scanner unavailable'' (Some ''lead_generation'') (Some 1))
     \<and> total_meetings rep = 2
     \<and> length (meetings_scheduled st') = 2"
proof -
  from full_pipeline_runs_all_stages [of collab_down config_empty two_prospect_department]
  obtain r1 st1 r2 st2 r3 st3 rep where
    a: "execute_lead_generation_workflow collab_down
          (config_empty\<lparr>cfg_criteria := Some (get_or criteria_empty (cfg_lead_criteria config_empty))\<rparr>)
          two_prospect_department = (r1, st1)"
    and b: "nurture_prospects collab_down [] st1 = (r2, st2)"
    and d: "schedule_meetings collab_down (default_prospects_data st2) st2 = (r3, st3)"
    and e: "total_meetings rep = int (length (meetings_scheduled st3))"
    and f: "execute_full_pipeline_workflow collab_down config_empty two_prospect_department
         = (FullPipelineResult
              [''lead_generation'', ''lead_nurturing'', ''meeting_scheduling'',
               ''pipeline_reporting'']
              r1 (LeadNurturingResult r2) (MeetingSchedulingResult r3)
              (PipelineReportingResult (Report rep)),
            st3\<lparr>ticks := ticks st3 + 4\<rparr>)"
    by blast
  have a': "r1 = Failure ''scanner unavailable'' (Some ''lead_generation'') (Some 1)
            \<and> st1 = two_prospect_department\<lparr>ticks := 2\<rparr>"
    using a by (auto simp: execute_lead_generation_workflow_def utcnow_def down_defs get_or_def)
  have b': "r2 = NurtureFailed ''store unavailable'' \<and> st2 = st1"
    using b by (auto simp: nurture_prospects_def nurture_prospects_with_def collab_down_def)
  have d': "r3 = ScheduleFailed ''store unavailable'' \<and> length (meetings_scheduled st3) = 2"
    using d a' b'
    by (auto simp: schedule_meetings_def default_prospects_data_def schedule_item_eq
        mark_scheduled_def down_defs)
  show ?thesis
    using f e a' b' d' by simp
qed

section \<open>The running mean of the execution times\<close>

lemma update_metrics_keeps_average:
  "average_execution_time (metrics (update_metrics c wt results st))
     = average_execution_time (metrics st)"
  by (simp add: update_metrics_def upd_metrics_def utcnow_def Let_def)

lemma update_average_mean:
  assumes "0 < total_workflows_executed m"
    and "average_execution_time m * real_of_int (total_workflows_executed m - 1) = S"
  shows "average_execution_time (update_average d m) * real_of_int (total_workflows_executed m)
           = S + d
         \<and> total_workflows_executed (update_average d m) = total_workflows_executed m"
  using assms by (simp add: update_average_def)

lemmas real_defs = collab_real_def scanned_example_def message_example_def
  SalesDepartment_init_def DepartmentMetrics_init_def blank_lead_def config_empty_def

text \<open>
  Claim C1 against the code. A lead generation workflow that lasts 2 seconds followed by a
  quick wins workflow that lasts 4 seconds, both successful, on a fresh department:
  \<open>total_workflows_executed\<close> is 2 and \<open>average_execution_time\<close> is 2, not the mean 3.
  The quick wins executor counts the workflow and leaves the average as it was.
\<close>

theorem quick_wins_leaves_average_stale:
  "(let (r1, st1) = execute_workflow collab_real
                      (config_empty\<lparr>workflow_type := Some ''lead_generation''\<rparr>)
                      SalesDepartment_init;
        (r2, st2) = execute_workflow collab_real
                      (config_empty\<lparr>workflow_type := Some ''quick_wins''\<rparr>) st1
    in success r1 \<and> success r2
       \<and> execution_time_of r1 = Some 2 \<and> execution_time_of r2 = Some 4
       \<and> total_workflows_executed (metrics st2) = 2
       \<and> average_execution_time (metrics st2) = 2
       \<and> average_execution_time (metrics st2) \<noteq> (2 + 4) / 2)"
  by (simp add: execute_workflow_def execute_lead_generation_workflow_def
      execute_quick_wins_workflow_def update_average_def upd_metrics_def utcnow_def
      outreach_config_def get_or_def real_defs Let_def)

text \<open>The lead generation executor alone keeps the law: after any sequence of
  successful lead generation workflows on a fresh department the average is the mean of
  their durations.\<close>

lemma lead_generation_step:
  assumes "lead_scanner c = Some scan" and "\<And>cr. \<exists>ls. scan cr = Inr ls"
    and "0 \<le> total_workflows_executed (metrics st)"
    and "average_execution_time (metrics st) * real_of_int (total_workflows_executed (metrics st)) = S"
    and "execute_lead_generation_workflow c cfg st = (r, st1)"
  shows "\<exists>d. execution_time_of r = Some d
             \<and> total_workflows_executed (metrics st1) = total_workflows_executed (metrics st) + 1
             \<and> average_execution_time (metrics st1)
                  * real_of_int (total_workflows_executed (metrics st1)) = S + d"
proof -
  obtain ls where ls: "scan \<lparr>sc_industries = get_or [] (cfg_industries cfg),
                          sc_titles = get_or [] (cfg_titles cfg),
                          sc_company_sizes = Some (get_or [] (cfg_company_sizes cfg)),
                          sc_min_score = get_or 60 (cfg_min_score cfg),
                          sc_max_results = get_or 50 (cfg_max_results cfg)\<rparr> = Inr ls"
    using assms(2) by blast
  show ?thesis
    using assms(1,3,4,5) ls
    by (auto simp: execute_lead_generation_workflow_def update_average_def upd_metrics_def
        utcnow_def Let_def)
qed

lemma lead_generation_runs_mean:
  assumes "lead_scanner c = Some scan" and "\<And>cr. \<exists>ls. scan cr = Inr ls"
  shows "0 \<le> total_workflows_executed (metrics st) \<Longrightarrow>
         average_execution_time (metrics st) * real_of_int (total_workflows_executed (metrics st)) = S \<Longrightarrow>
         lead_generation_runs c cfgs st = (ds, st') \<Longrightarrow>
           length ds = length cfgs
           \<and> total_workflows_executed (metrics st')
               = total_workflows_executed (metrics st) + int (length cfgs)
           \<and> average_execution_time (metrics st')
                * real_of_int (total_workflows_executed (metrics st')) = S + sum_list ds"
proof (induction cfgs arbitrary: st S ds st')
  case Nil
  then show ?case by simp
next
  case (Cons cfg cfgs)
  obtain r st1 where a: "execute_lead_generation_workflow c cfg st = (r, st1)"
    by (cases "execute_lead_generation_workflow c cfg st")
  obtain ds1 st2 where b: "lead_generation_runs c cfgs st1 = (ds1, st2)"
    by (cases "lead_generation_runs c cfgs st1")
  from lead_generation_step [OF assms Cons.prems(1,2) a] obtain d where d:
    "execution_time_of r = Some d"
    "total_workflows_executed (metrics st1) = total_workflows_executed (metrics st) + 1"
    "average_execution_time (metrics st1)
       * real_of_int (total_workflows_executed (metrics st1)) = S + d"
    by blast
  have "0 \<le> total_workflows_executed (metrics st1)" using d(2) Cons.prems(1) by simp
  from Cons.IH [OF this d(3) b] Cons.prems(3) a b d show ?case by auto
qed

lemma lead_generation_runs_from_init:
  assumes "lead_scanner c = Some scan" and "\<And>cr. \<exists>ls. scan cr = Inr ls"
    and "lead_generation_runs c cfgs SalesDepartment_init = (ds, st')" and "cfgs \<noteq> []"
  shows "average_execution_time (metrics st') = sum_list ds / real (length ds)"
proof -
  have i: "0 \<le> total_workflows_executed (metrics SalesDepartment_init)"
    by (simp add: SalesDepartment_init_def DepartmentMetrics_init_def)
  have j: "average_execution_time (metrics SalesDepartment_init)
             * real_of_int (total_workflows_executed (metrics SalesDepartment_init)) = 0"
    by (simp add: SalesDepartment_init_def DepartmentMetrics_init_def)
  note k = lead_generation_runs_mean [OF assms(1,2) i j assms(3)]
  from k have l: "length ds = length cfgs" by blast
  from k have "total_workflows_executed (metrics st')
                 = total_workflows_executed (metrics SalesDepartment_init) + int (length cfgs)"
    by blast
  then have t: "total_workflows_executed (metrics st') = int (length ds)"
    by (simp add: l SalesDepartment_init_def DepartmentMetrics_init_def)
  from k have "average_execution_time (metrics st')
                 * real_of_int (total_workflows_executed (metrics st')) = 0 + sum_list ds"
    by blast
  then have "average_execution_time (metrics st') * real (length ds) = sum_list ds"
    unfolding t by simp
  moreover have "real (length ds) \<noteq> 0" using assms(4) l by simp
  ultimately show ?thesis by (simp add: field_simps)
qed

end
